theory Spec2Isabelle
  imports Complex_Main
begin

section \<open>The entry point \<^verbatim>\<open>main.py\<close> of the question-answering driver\<close>

text \<open>
  The file \<^verbatim>\<open>src/main.py\<close> parses flags, fills in two defaults, builds the model
  through collaborator modules and dispatches on \<^verbatim>\<open>FLAGS.mode\<close>. Its behaviour is
  control flow around calls into TensorFlow, the file system and the modules
  \<^verbatim>\<open>qa_model\<close>, \<^verbatim>\<open>vocab\<close> and \<^verbatim>\<open>official_eval_helper\<close>. The model below keeps
  that control flow as it is written: every \<^verbatim>\<open>raise\<close> is a branch returning
  \<open>Raised msg\<close>, every assignment to \<^verbatim>\<open>FLAGS\<close> is a record update, and every call
  that leaves the file is recorded, in program order, as an event of a trace.
  What such a call returns is read from an environment record. The calls are taken to
  return, with two exceptions: \<^verbatim>\<open>model.saver.restore\<close> may raise, when the file found is
  not a checkpoint the framework can read, and \<^verbatim>\<open>tf.app.run\<close> may exit without calling
  \<^verbatim>\<open>main\<close>.
\<close>

subsection \<open>Python string operations used by the file\<close>

text \<open>\<^verbatim>\<open>str(n)\<close>, \<^verbatim>\<open>"%i" % n\<close>, \<^verbatim>\<open>"%d" % n\<close> and \<^verbatim>\<open>"{}".format(n)\<close> of an integer: its decimal
  digits, with a minus sign when negative.\<close>

fun str_nat :: "nat \<Rightarrow> string" where
  "str_nat n = (if n < 10 then [''0123456789'' ! n]
                else str_nat (n div 10) @ [''0123456789'' ! (n mod 10)])"

declare str_nat.simps [simp del]

definition str_int :: "int \<Rightarrow> string" where
  "str_int i = (if i < 0 then CHR ''-'' # str_nat (nat (- i)) else str_nat (nat i))"

text \<open>\<^verbatim>\<open>repr\<close> of a string whose characters are the code points below 256. The string is
  put in single quotes, unless it holds a single quote and no double quote; the quote in
  use and the backslash are escaped; tab, newline and carriage return are written \<^verbatim>\<open>\t\<close>,
  \<^verbatim>\<open>\n\<close>, \<^verbatim>\<open>\r\<close>; every other character that is not printable is written \<^verbatim>\<open>\xNN\<close>. For a
  text string of Python 3 the characters that are not printable are the control characters
  (below 32, and 127 to 159), the no-break space (160) and the soft hyphen (173); for a
  byte string of Python 2 (\<open>bytes\<close> true) they are all characters below 32 and from 127
  on.\<close>

definition printable :: "bool \<Rightarrow> char \<Rightarrow> bool" where
  "printable bytes c =
     (let n = (of_char c :: nat)
      in 32 \<le> n \<and> n < 127 \<or> \<not> bytes \<and> 160 < n \<and> n \<noteq> 173)"

definition repr_char :: "bool \<Rightarrow> char \<Rightarrow> char \<Rightarrow> string" where
  "repr_char bytes q c =
     (if c = q \<or> c = CHR 0x5C then [CHR 0x5C, c]
      else if c = CHR 0x09 then [CHR 0x5C, CHR ''t'']
      else if c = CHR 0x0A then [CHR 0x5C, CHR ''n'']
      else if c = CHR 0x0D then [CHR 0x5C, CHR ''r'']
      else if \<not> printable bytes c
        then [CHR 0x5C, CHR ''x'', ''0123456789abcdef'' ! ((of_char c :: nat) div 16),
              ''0123456789abcdef'' ! ((of_char c :: nat) mod 16)]
      else [c])"

definition repr_str :: "bool \<Rightarrow> string \<Rightarrow> string" where
  "repr_str bytes s =
     (let q = (if CHR 0x27 \<in> set s \<and> CHR 0x22 \<notin> set s then CHR 0x22 else CHR 0x27)
      in q # concat (map (repr_char bytes q) s) @ [q])"

text \<open>\<^verbatim>\<open>", ".join(xs)\<close>.\<close>

fun join_comma :: "string list \<Rightarrow> string" where
  "join_comma [] = []"
| "join_comma [x] = x"
| "join_comma (x # y # ys) = x @ '', '' @ join_comma (y # ys)"

text \<open>\<^verbatim>\<open>"%s" % xs\<close> for a list of strings \<open>xs\<close>: the list's \<^verbatim>\<open>str\<close>, under the interpreter
  of the given major version. The elements of \<^verbatim>\<open>sys.argv\<close> are byte strings before Python 3.\<close>

definition str_list :: "int \<Rightarrow> string list \<Rightarrow> string" where
  "str_list major xs = ''['' @ join_comma (map (repr_str (major < 3)) xs) @ '']''"

text \<open>\<^verbatim>\<open>a or b\<close> on strings: \<open>a\<close> unless it is empty.\<close>

definition py_or :: "string \<Rightarrow> string \<Rightarrow> string" where
  "py_or a b = (if a \<noteq> [] then a else b)"

text \<open>\<^verbatim>\<open>os.path.join(a, b)\<close> of \<^verbatim>\<open>posixpath\<close>: an absolute \<open>b\<close> replaces \<open>a\<close>; otherwise
  \<open>b\<close> is appended, after a separator unless \<open>a\<close> is empty or already ends in one.\<close>

definition path_join :: "string \<Rightarrow> string \<Rightarrow> string" where
  "path_join a b =
     (if b \<noteq> [] \<and> hd b = CHR ''/'' then b
      else if a = [] \<or> last a = CHR ''/'' then a @ b
      else a @ ''/'' @ b)"

subsection \<open>Configuration, environment, world\<close>

text \<open>The namespace returned by \<^verbatim>\<open>parser.parse_known_args()\<close> (lines 175 to 295): one
  field for each \<^verbatim>\<open>add_argument\<close>, with the declared type. The three \<^verbatim>\<open>float\<close> flags are
  only passed on, never computed with.\<close>

record flags =
  gpu :: int
  mode :: string
  experiment_name :: string
  num_epochs :: int
  learning_rate :: real
  max_gradient_norm :: real
  dropout :: real
  batch_size :: int
  hidden_size :: int
  context_len :: int
  question_len :: int
  embedding_size :: int
  print_every :: int
  save_every :: int
  eval_every :: int
  keep :: int
  train_dir :: string
  glove_path :: string
  data_dir :: string
  ckpt_load_dir :: string
  json_in_path :: string
  json_out_path :: string

text \<open>What \<^verbatim>\<open>official_eval_helper.get_json_data\<close> returns (question identifiers, context
  tokens, question tokens) and what \<^verbatim>\<open>generate_answers\<close> returns (identifier to answer).\<close>

type_synonym json_data = "string list \<times> string list list \<times> string list list"
type_synonym answers = "(string \<times> string) list"

text \<open>What the run reads from outside and does not change: the interpreter's major
  version (\<^verbatim>\<open>sys.version_info[0]\<close>), \<^verbatim>\<open>tf.__version__\<close>, the value of \<^verbatim>\<open>MAIN_DIR\<close> (line 37,
  a relative path computed from the file's location), the answer of
  \<^verbatim>\<open>tf.train.get_checkpoint_state\<close> for a directory (\<open>None\<close>, or the state's
  \<^verbatim>\<open>model_checkpoint_path\<close>), what \<^verbatim>\<open>model.saver.restore\<close> does on a path (\<open>None\<close> when it
  restores the parameters, the framework's error when the file is not a checkpoint it can
  read), the shapes of \<^verbatim>\<open>tf.trainable_variables()\<close>, the results of the two helpers of
  \<^verbatim>\<open>official_eval_helper\<close>, and what the flag parser inside \<^verbatim>\<open>tf.app.run\<close> makes of an
  argument list: the list it passes on to \<^verbatim>\<open>main\<close>, its own flags removed, or \<open>None\<close> when it
  exits instead (on a help flag).\<close>

record env =
  version_major :: int
  tf_version :: string
  MAIN_DIR :: string
  get_checkpoint_state :: "string \<Rightarrow> string option"
  saver_restore :: "string \<Rightarrow> string option"
  trainable_variables :: "int list list"
  get_json_data :: "string \<Rightarrow> json_data"
  generate_answers :: "json_data \<Rightarrow> answers"
  tf_parse_flags :: "string list \<Rightarrow> string list option"

definition DEFAULT_DATA_DIR :: "env \<Rightarrow> string" where
  "DEFAULT_DATA_DIR e = path_join (MAIN_DIR e) ''data''"

definition EXPERIMENTS_DIR :: "env \<Rightarrow> string" where
  "EXPERIMENTS_DIR e = path_join (MAIN_DIR e) ''experiments''"

text \<open>The calls that leave the file, and the prints, in the order they happen.\<close>

datatype event =
    Import string
  | Logging_basicConfig
  | Parse_known_args
  | Set_environ string string
  | Tf_app_run "string list"
  | Print string
  | Get_glove string int
  | QAModel_init flags
  | ConfigProto
  | Makedirs string
  | Add_log_file string
  | Json_dump_flags string flags
  | Session_enter
  | Session_exit
  | Checkpoint_lookup string
  | Saver_restore string
  | Global_variables_initializer
  | Model_train string string string string string string
  | Check_f1_em string string string string nat bool
  | Read_json_data string
  | Answers_generated
  | Write_answers string answers

text \<open>The mutable state: the \<^verbatim>\<open>FLAGS\<close> object, the paths that exist in the file system
  (what \<^verbatim>\<open>os.path.exists\<close> and \<^verbatim>\<open>tf.gfile.Exists\<close> answer), \<^verbatim>\<open>os.environ\<close>, and the trace.\<close>

record world =
  FLAGS :: flags
  paths :: "string set"
  environ :: "string \<Rightarrow> string option"
  trace :: "event list"

text \<open>How a call ends: it returns, it raises the \<^verbatim>\<open>Exception\<close> of one of the \<^verbatim>\<open>raise\<close>
  statements of the file, with its message, an error of the framework comes out of it, or
  the process exits before \<^verbatim>\<open>main\<close> is called.\<close>

datatype outcome = Returned | Raised string | Framework_raised string | Exited

definition emit :: "event \<Rightarrow> world \<Rightarrow> world" where
  "emit e w = w\<lparr>trace := trace w @ [e]\<rparr>"

text \<open>\<^verbatim>\<open>os.makedirs(p)\<close>: the directory exists afterwards.\<close>

definition makedirs :: "string \<Rightarrow> world \<Rightarrow> world" where
  "makedirs p w = emit (Makedirs p) (w\<lparr>paths := insert p (paths w)\<rparr>)"

text \<open>The idiom \<^verbatim>\<open>if not os.path.exists(p): os.makedirs(p)\<close> (lines 114 to 115 and 124 to
  125).\<close>

definition ensure_dir :: "string \<Rightarrow> world \<Rightarrow> world" where
  "ensure_dir p w = (if p \<notin> paths w then makedirs p w else w)"

subsection \<open>\<^verbatim>\<open>initialize_model\<close> (lines 43 to 66)\<close>

text \<open>\<^verbatim>\<open>sum(v.get_shape().num_elements() for v in tf.trainable_variables())\<close>.\<close>

definition num_params :: "env \<Rightarrow> int" where
  "num_params e = sum_list (map prod_list (trainable_variables e))"

definition initialize_model :: "env \<Rightarrow> string \<Rightarrow> bool \<Rightarrow> world \<Rightarrow> outcome \<times> world" where
  "initialize_model e dir expect_exists w0 =
     (let w1 = emit (Print (''Looking for model at '' @ dir @ ''...'')) w0;
          ckpt = get_checkpoint_state e dir;
          w2 = emit (Checkpoint_lookup dir) w1;
          model_checkpoint_path = (case ckpt of Some p \<Rightarrow> p | None \<Rightarrow> []);
          v2_path = (if ckpt \<noteq> None then model_checkpoint_path @ ''.index'' else [])
      in if ckpt \<noteq> None \<and> (model_checkpoint_path \<in> paths w2 \<or> v2_path \<in> paths w2)
         then
           (let w3 = emit (Print (''Reading model parameters from '' @ model_checkpoint_path)) w2;
                w4 = emit (Saver_restore model_checkpoint_path) w3
            in case saver_restore e model_checkpoint_path of
                 None \<Rightarrow> (Returned, w4)
               | Some err \<Rightarrow> (Framework_raised err, w4))
         else if expect_exists
         then (Raised (''There is no saved checkpoint at '' @ dir), w2)
         else
           (let w3 = emit (Print (''There is no saved checkpoint at '' @ dir
                                   @ ''. Creating model with fresh parameters.'')) w2;
                w4 = emit Global_variables_initializer w3
            in (Returned, emit (Print (''Num params: '' @ str_int (num_params e))) w4)))"

subsection \<open>\<^verbatim>\<open>main\<close> (lines 69 to 172)\<close>

text \<open>Opening a file for writing creates it.\<close>

definition create_file :: "string \<Rightarrow> world \<Rightarrow> world" where
  "create_file p w = w\<lparr>paths := insert p (paths w)\<rparr>"

text \<open>The \<^verbatim>\<open>train\<close> branch, lines 111 to 133. The \<^verbatim>\<open>with tf.Session(...)\<close> block leaves
  the session on return and on an exception alike; an exception of \<^verbatim>\<open>initialize_model\<close>
  goes on through it.\<close>

definition train_branch ::
  "env \<Rightarrow> string \<Rightarrow> string \<Rightarrow> string \<Rightarrow> string \<Rightarrow> string \<Rightarrow> string \<Rightarrow> string
     \<Rightarrow> world \<Rightarrow> outcome \<times> world" where
  "train_branch e bestmodel_dir train_context_path train_qn_path train_ans_path
       dev_context_path dev_qn_path dev_ans_path w0 =
     (let w1 = ensure_dir (train_dir (FLAGS w0)) w0;
          log_path = path_join (train_dir (FLAGS w1)) ''log.txt'';
          w2 = emit (Add_log_file log_path) (create_file log_path w1);
          json_path = path_join (train_dir (FLAGS w2)) ''flags.json'';
          w3 = emit (Json_dump_flags json_path (FLAGS w2)) (create_file json_path w2);
          w4 = ensure_dir bestmodel_dir w3;
          w5 = emit Session_enter w4;
          (r, w6) = initialize_model e (train_dir (FLAGS w5)) False w5
      in if r = Returned
         then
           (let w7 = emit (Model_train train_context_path train_qn_path train_ans_path
                             dev_qn_path dev_context_path dev_ans_path) w6
            in (Returned, emit Session_exit w7))
         else (r, emit Session_exit w6))"

text \<open>The \<^verbatim>\<open>show_examples\<close> branch, lines 136 to 143.\<close>

definition show_examples_branch ::
  "env \<Rightarrow> string \<Rightarrow> string \<Rightarrow> string \<Rightarrow> string \<Rightarrow> world \<Rightarrow> outcome \<times> world" where
  "show_examples_branch e bestmodel_dir dev_context_path dev_qn_path dev_ans_path w0 =
     (let w1 = emit Session_enter w0;
          (r, w2) = initialize_model e bestmodel_dir True w1
      in if r = Returned
         then
           (let w3 = emit (Check_f1_em dev_context_path dev_qn_path dev_ans_path
                             ''dev'' 10 True) w2
            in (Returned, emit Session_exit w3))
         else (r, emit Session_exit w2))"

text \<open>The \<^verbatim>\<open>official_eval\<close> branch, lines 146 to 168.\<close>

definition official_eval_branch :: "env \<Rightarrow> world \<Rightarrow> outcome \<times> world" where
  "official_eval_branch e w0 =
     (if json_in_path (FLAGS w0) = []
      then (Raised ''For official_eval mode, you need to specify --json_in_path'', w0)
      else if ckpt_load_dir (FLAGS w0) = []
      then (Raised ''For official_eval mode, you need to specify --ckpt_load_dir'', w0)
      else
        (let data = get_json_data e (json_in_path (FLAGS w0));
             w1 = emit (Read_json_data (json_in_path (FLAGS w0))) w0;
             w2 = emit Session_enter w1;
             (r, w3) = initialize_model e (ckpt_load_dir (FLAGS w2)) True w2
         in if r = Returned
            then
              (let answers_dict = generate_answers e data;
                   w4 = emit Answers_generated w3;
                   w5 = emit (Print (''Writing predictions to '' @ json_out_path (FLAGS w4)
                                     @ ''...'')) w4;
                   w6 = emit (Write_answers (json_out_path (FLAGS w5)) answers_dict)
                          (create_file (json_out_path (FLAGS w5)) w5);
                   w7 = emit (Print (''Wrote predictions to '' @ json_out_path (FLAGS w6))) w6
               in (Returned, emit Session_exit w7))
            else (r, emit Session_exit w3)))"

definition main :: "env \<Rightarrow> string list \<Rightarrow> world \<Rightarrow> outcome \<times> world" where
  "main e unused_argv w0 =
     (if length unused_argv \<noteq> 1
      then (Raised (''There is a problem with how you entered flags: ''
                    @ str_list (version_major e) unused_argv), w0)
      else if version_major e \<noteq> 3
      then (Raised (''ERROR: You must use Python 2 but you are running Python ''
                    @ str_int (version_major e)), w0)
      else
        (let w1 = emit (Print (''This code was developed and tested on TensorFlow 1.8.0. ''
                               @ ''Your TensorFlow version: '' @ tf_version e)) w0
         in if experiment_name (FLAGS w1) = [] \<and> train_dir (FLAGS w1) = []
               \<and> mode (FLAGS w1) \<noteq> ''official_eval''
            then (Raised ''You need to specify either --experiment_name or --train_dir'', w1)
            else
              (let w2 = w1\<lparr>FLAGS := (FLAGS w1)\<lparr>train_dir :=
                            py_or (train_dir (FLAGS w1))
                              (path_join (EXPERIMENTS_DIR e) (experiment_name (FLAGS w1)))\<rparr>\<rparr>;
                   bestmodel_dir = path_join (train_dir (FLAGS w2)) ''best_checkpoint'';
                   w3 = w2\<lparr>FLAGS := (FLAGS w2)\<lparr>glove_path :=
                            py_or (glove_path (FLAGS w2))
                              (path_join (DEFAULT_DATA_DIR e)
                                 (''glove.6B.'' @ str_int (embedding_size (FLAGS w2))
                                  @ ''d.txt''))\<rparr>\<rparr>;
                   w4 = emit (Get_glove (glove_path (FLAGS w3)) (embedding_size (FLAGS w3))) w3;
                   train_context_path = path_join (data_dir (FLAGS w4)) ''train.context'';
                   train_qn_path = path_join (data_dir (FLAGS w4)) ''train.question'';
                   train_ans_path = path_join (data_dir (FLAGS w4)) ''train.span'';
                   dev_context_path = path_join (data_dir (FLAGS w4)) ''dev.context'';
                   dev_qn_path = path_join (data_dir (FLAGS w4)) ''dev.question'';
                   dev_ans_path = path_join (data_dir (FLAGS w4)) ''dev.span'';
                   w5 = emit (QAModel_init (FLAGS w4)) w4;
                   w6 = emit ConfigProto w5
               in if mode (FLAGS w6) = ''train''
                  then train_branch e bestmodel_dir train_context_path train_qn_path
                         train_ans_path dev_context_path dev_qn_path dev_ans_path w6
                  else if mode (FLAGS w6) = ''show_examples''
                  then show_examples_branch e bestmodel_dir dev_context_path dev_qn_path
                         dev_ans_path w6
                  else if mode (FLAGS w6) = ''official_eval''
                  then official_eval_branch e w6
                  else (Raised (''Unexpected value of FLAGS.mode: '' @ mode (FLAGS w6)), w6))))"

subsection \<open>The script (lines 21 to 40 and 174 to 299)\<close>

text \<open>The defaults of the flags (lines 178 to 293).\<close>

definition default_FLAGS :: "env \<Rightarrow> flags" where
  "default_FLAGS e =
     \<lparr>gpu = 0, mode = ''train'', experiment_name = [], num_epochs = 0,
      learning_rate = 1 / 1000, max_gradient_norm = 5, dropout = 15 / 100,
      batch_size = 100, hidden_size = 200, context_len = 600, question_len = 30,
      embedding_size = 100, print_every = 1, save_every = 500, eval_every = 500, keep = 1,
      train_dir = [], glove_path = [], data_dir = DEFAULT_DATA_DIR e, ckpt_load_dir = [],
      json_in_path = [], json_out_path = ''predictions.json''\<rparr>"

text \<open>The run of the script. \<open>parsed\<close> and \<open>unparsed\<close> are what \<^verbatim>\<open>parse_known_args\<close>
  returns at line 295, \<open>argv0\<close> is \<^verbatim>\<open>sys.argv[0]\<close>, \<open>fs\<close> the paths that exist and \<open>vars\<close> the
  environment variables when the script starts. The statements run in the order of the
  file: the imports of lines 28 to 32, \<^verbatim>\<open>logging.basicConfig\<close> (line 35), the parsing of the
  flags, the assignment to \<^verbatim>\<open>os.environ\<close> (line 297) and \<^verbatim>\<open>tf.app.run\<close> (line 299), which
  parses the flags of the library out of the list it is given and calls \<^verbatim>\<open>main\<close> with what
  remains, or exits.\<close>

definition script ::
  "env \<Rightarrow> string \<Rightarrow> flags \<Rightarrow> string list \<Rightarrow> string set \<Rightarrow> (string \<Rightarrow> string option)
     \<Rightarrow> outcome \<times> world" where
  "script e argv0 parsed unparsed fs vars =
     (let w0 = \<lparr>FLAGS = parsed, paths = fs, environ = vars,
                trace = [Import ''tensorflow'', Import ''qa_model'', Import ''vocab'',
                         Import ''official_eval_helper'', Logging_basicConfig,
                         Parse_known_args]\<rparr>;
          w1 = emit (Set_environ ''CUDA_VISIBLE_DEVICES'' (str_int (gpu (FLAGS w0))))
                 (w0\<lparr>environ := (environ w0)(''CUDA_VISIBLE_DEVICES''
                                              \<mapsto> str_int (gpu (FLAGS w0)))\<rparr>);
          w2 = emit (Tf_app_run (argv0 # unparsed)) w1
      in case tf_parse_flags e (argv0 # unparsed) of
           None \<Rightarrow> (Exited, w2)
         | Some argv \<Rightarrow> main e argv w2)"

subsection \<open>Notions used to state the properties\<close>

text \<open>The test of line 57 as a predicate of the directory and of the set of existing paths:
  a checkpoint state was found and its file, or the file's \<^verbatim>\<open>.index\<close> companion, exists.\<close>

definition found_checkpoint :: "env \<Rightarrow> string set \<Rightarrow> string \<Rightarrow> bool" where
  "found_checkpoint e P dir =
     (case get_checkpoint_state e dir of
        None \<Rightarrow> False
      | Some p \<Rightarrow> p \<in> P \<or> p @ ''.index'' \<in> P)"

text \<open>\<^verbatim>\<open>ckpt.model_checkpoint_path\<close> for a directory.\<close>

definition checkpoint_path :: "env \<Rightarrow> string \<Rightarrow> string" where
  "checkpoint_path e dir = (case get_checkpoint_state e dir of Some p \<Rightarrow> p | None \<Rightarrow> [])"

text \<open>How \<^verbatim>\<open>model.saver.restore\<close> ends on the checkpoint of a directory.\<close>

definition restore_outcome :: "env \<Rightarrow> string \<Rightarrow> outcome" where
  "restore_outcome e dir =
     (case saver_restore e (checkpoint_path e dir) of
        None \<Rightarrow> Returned
      | Some err \<Rightarrow> Framework_raised err)"

text \<open>A readable checkpoint: one that the test of line 57 finds and that the framework can
  restore.\<close>

definition readable_checkpoint :: "env \<Rightarrow> string set \<Rightarrow> string \<Rightarrow> bool" where
  "readable_checkpoint e P dir \<longleftrightarrow>
     found_checkpoint e P dir \<and> restore_outcome e dir = Returned"

text \<open>The events of \<^verbatim>\<open>initialize_model\<close> after the lookup: the attempt to restore, and the
  creation of fresh parameters.\<close>

definition restore_events :: "env \<Rightarrow> string \<Rightarrow> event list" where
  "restore_events e dir =
     [Print (''Reading model parameters from '' @ checkpoint_path e dir),
      Saver_restore (checkpoint_path e dir)]"

definition fresh_events :: "env \<Rightarrow> string \<Rightarrow> event list" where
  "fresh_events e dir =
     [Print (''There is no saved checkpoint at '' @ dir
             @ ''. Creating model with fresh parameters.''),
      Global_variables_initializer,
      Print (''Num params: '' @ str_int (sum_list (map prod_list (trainable_variables e))))]"

text \<open>The events that belong to one mode only.\<close>

fun train_event :: "event \<Rightarrow> bool" where
  "train_event (Makedirs _) = True"
| "train_event (Add_log_file _) = True"
| "train_event (Json_dump_flags _ _) = True"
| "train_event (Model_train _ _ _ _ _ _) = True"
| "train_event _ = False"

fun show_examples_event :: "event \<Rightarrow> bool" where
  "show_examples_event (Check_f1_em _ _ _ _ _ _) = True"
| "show_examples_event _ = False"

fun official_eval_event :: "event \<Rightarrow> bool" where
  "official_eval_event (Read_json_data _) = True"
| "official_eval_event Answers_generated = True"
| "official_eval_event (Write_answers _ _) = True"
| "official_eval_event _ = False"

text \<open>The configuration an event hands to a collaborator or to a file, if any.\<close>

fun flags_of_event :: "event \<Rightarrow> flags option" where
  "flags_of_event (QAModel_init F) = Some F"
| "flags_of_event (Json_dump_flags _ F) = Some F"
| "flags_of_event _ = None"

text \<open>The events \<^verbatim>\<open>main\<close> adds to the trace.\<close>

definition main_events :: "env \<Rightarrow> string list \<Rightarrow> world \<Rightarrow> event list" where
  "main_events e unused_argv w = drop (length (trace w)) (trace (snd (main e unused_argv w)))"

text \<open>The three checks of lines 71 to 83 pass.\<close>

definition passes_checks :: "env \<Rightarrow> string list \<Rightarrow> flags \<Rightarrow> bool" where
  "passes_checks e unused_argv F \<longleftrightarrow>
     length unused_argv = 1 \<and> version_major e = 3
     \<and> (experiment_name F \<noteq> [] \<or> train_dir F \<noteq> [] \<or> mode F = ''official_eval'')"

text \<open>\<^verbatim>\<open>FLAGS\<close> after the assignments of lines 84 and 90.\<close>

definition filled_FLAGS :: "env \<Rightarrow> flags \<Rightarrow> flags" where
  "filled_FLAGS e F =
     F\<lparr>train_dir := py_or (train_dir F) (path_join (EXPERIMENTS_DIR e) (experiment_name F)),
       glove_path := py_or (glove_path F)
         (path_join (DEFAULT_DATA_DIR e)
            (''glove.6B.'' @ str_int (embedding_size F) @ ''d.txt''))\<rparr>"

text \<open>The events of lines 79 to 108, which every mode shares: the version print, the
  loading of the embeddings, the construction of the model and the session configuration.\<close>

definition setup_events :: "env \<Rightarrow> flags \<Rightarrow> event list" where
  "setup_events e F =
     [Print (''This code was developed and tested on TensorFlow 1.8.0. ''
             @ ''Your TensorFlow version: '' @ tf_version e),
      Get_glove (glove_path F) (embedding_size F), QAModel_init F, ConfigProto]"

subsection \<open>A concrete setting\<close>

text \<open>A Python 3 interpreter, the repository root as working directory, one checkpoint in
  the directory \<^verbatim>\<open>run\<close> whose index file exists and which the framework can read, two
  trainable variables of shapes \<open>2 \<times> 3\<close> and \<open>4\<close>, and command lines without flags of the
  library.\<close>

definition example_env :: env where
  "example_env =
     \<lparr>version_major = 3, tf_version = ''1.8.0'', MAIN_DIR = ''.'',
      get_checkpoint_state = (\<lambda>d. if d = ''run'' then Some ''run/qa.ckpt-5'' else None),
      saver_restore = (\<lambda>p. None),
      trainable_variables = [[2, 3], [4]],
      get_json_data = (\<lambda>p. ([''q1''], [[''c'']], [[''w'']])),
      generate_answers = (\<lambda>d. map (\<lambda>u. (u, ''ans'')) (fst d)),
      tf_parse_flags = Some\<rparr>"

text \<open>The same setting, except that the file of that checkpoint is damaged: the framework
  cannot read it.\<close>

definition damaged_env :: env where
  "damaged_env =
     example_env\<lparr>saver_restore :=
       (\<lambda>p. if p = ''run/qa.ckpt-5'' then Some ''DataLossError'' else None)\<rparr>"

text \<open>The same setting, with a command line that carries a flag of the library: the
  library removes \<^verbatim>\<open>--undefok=x\<close> before it calls \<^verbatim>\<open>main\<close>.\<close>

definition undefok_env :: env where
  "undefok_env = example_env\<lparr>tf_parse_flags := (\<lambda>argv. Some (remove1 ''--undefok=x'' argv))\<rparr>"

definition example_world :: "flags \<Rightarrow> world" where
  "example_world F =
     \<lparr>FLAGS = F, paths = {''run/qa.ckpt-5.index''}, environ = Map.empty, trace = []\<rparr>"

text \<open>The command lines \<^verbatim>\<open>--experiment_name e1\<close> and
  \<^verbatim>\<open>--mode official_eval --json_in_path in.json --ckpt_load_dir run\<close>.\<close>

definition train_flags :: flags where
  "train_flags = (default_FLAGS example_env)\<lparr>experiment_name := ''e1''\<rparr>"

definition eval_flags :: flags where
  "eval_flags = (default_FLAGS example_env)\<lparr>mode := ''official_eval'',
      json_in_path := ''in.json'', ckpt_load_dir := ''run''\<rparr>"

section \<open>Auxiliary facts\<close>

subsection \<open>State after each primitive step\<close>

lemma emit_simps [simp]:
  "FLAGS (emit x w) = FLAGS w" "paths (emit x w) = paths w"
  "environ (emit x w) = environ w" "trace (emit x w) = trace w @ [x]"
  by (simp_all add: emit_def)

lemma makedirs_simps [simp]:
  "FLAGS (makedirs p w) = FLAGS w" "paths (makedirs p w) = insert p (paths w)"
  "environ (makedirs p w) = environ w" "trace (makedirs p w) = trace w @ [Makedirs p]"
  by (simp_all add: makedirs_def)

lemma ensure_dir_simps [simp]:
  "FLAGS (ensure_dir p w) = FLAGS w" "paths (ensure_dir p w) = insert p (paths w)"
  "environ (ensure_dir p w) = environ w"
  "trace (ensure_dir p w) = trace w @ (if p \<in> paths w then [] else [Makedirs p])"
  by (auto simp: ensure_dir_def)

lemma create_file_simps [simp]:
  "FLAGS (create_file p w) = FLAGS w" "paths (create_file p w) = insert p (paths w)"
  "environ (create_file p w) = environ w" "trace (create_file p w) = trace w"
  by (simp_all add: create_file_def)

lemma world_eqI:
  fixes v w :: world
  shows "FLAGS v = FLAGS w \<Longrightarrow> paths v = paths w \<Longrightarrow> environ v = environ w \<Longrightarrow> trace v = trace w
    \<Longrightarrow> v = w"
  by simp

subsection \<open>\<^verbatim>\<open>initialize_model\<close>\<close>

lemma found_checkpoint_path:
  "found_checkpoint e P dir \<Longrightarrow> get_checkpoint_state e dir = Some (checkpoint_path e dir)"
  by (simp add: found_checkpoint_def checkpoint_path_def split: option.splits)

lemma initialize_model_fst:
  "fst (initialize_model e dir b w) =
     (if found_checkpoint e (paths w) dir then restore_outcome e dir
      else if b then Raised (''There is no saved checkpoint at '' @ dir) else Returned)"
  by (auto simp: initialize_model_def found_checkpoint_def checkpoint_path_def
      restore_outcome_def Let_def split: option.splits)

lemma initialize_model_trace:
  "trace (snd (initialize_model e dir b w)) =
     trace w @ [Print (''Looking for model at '' @ dir @ ''...''), Checkpoint_lookup dir]
     @ (if found_checkpoint e (paths w) dir then restore_events e dir
        else if b then [] else fresh_events e dir)"
  by (auto simp: initialize_model_def found_checkpoint_def checkpoint_path_def restore_events_def
      fresh_events_def num_params_def Let_def split: option.splits)

lemma initialize_model_rest [simp]:
  "FLAGS (snd (initialize_model e dir b w)) = FLAGS w"
  "paths (snd (initialize_model e dir b w)) = paths w"
  "environ (snd (initialize_model e dir b w)) = environ w"
  by (simp_all add: initialize_model_def Let_def split: option.splits)

lemma restore_outcome_not_Raised [simp]:
  "restore_outcome e dir \<noteq> Raised msg" "restore_outcome e dir \<noteq> Exited"
  by (simp_all add: restore_outcome_def split: option.splits)

subsection \<open>The three branches\<close>

lemma train_branch_rest [simp]:
  "FLAGS (snd (train_branch e bd a b c d f g w)) = FLAGS w"
  "environ (snd (train_branch e bd a b c d f g w)) = environ w"
  "paths (snd (train_branch e bd a b c d f g w)) =
     insert bd (insert (path_join (train_dir (FLAGS w)) ''flags.json'')
       (insert (path_join (train_dir (FLAGS w)) ''log.txt'')
          (insert (train_dir (FLAGS w)) (paths w))))"
  by (simp_all add: train_branch_def Let_def split_beta)

lemma train_branch_fst:
  "fst (train_branch e bd a b c d f g w) =
     (if found_checkpoint e (insert bd (insert (path_join (train_dir (FLAGS w)) ''flags.json'')
                  (insert (path_join (train_dir (FLAGS w)) ''log.txt'')
                     (insert (train_dir (FLAGS w)) (paths w))))) (train_dir (FLAGS w))
      then restore_outcome e (train_dir (FLAGS w)) else Returned)"
  by (simp add: train_branch_def Let_def split_beta initialize_model_fst)

lemma train_branch_trace:
  "trace (snd (train_branch e bd a b c d f g w)) =
     trace w @ (if train_dir (FLAGS w) \<in> paths w then [] else [Makedirs (train_dir (FLAGS w))])
     @ [Add_log_file (path_join (train_dir (FLAGS w)) ''log.txt''),
        Json_dump_flags (path_join (train_dir (FLAGS w)) ''flags.json'') (FLAGS w)]
     @ (if bd \<in> insert (path_join (train_dir (FLAGS w)) ''flags.json'')
                  (insert (path_join (train_dir (FLAGS w)) ''log.txt'')
                     (insert (train_dir (FLAGS w)) (paths w)))
        then [] else [Makedirs bd])
     @ [Session_enter, Print (''Looking for model at '' @ train_dir (FLAGS w) @ ''...''),
        Checkpoint_lookup (train_dir (FLAGS w))]
     @ (if found_checkpoint e (insert bd (insert (path_join (train_dir (FLAGS w)) ''flags.json'')
                  (insert (path_join (train_dir (FLAGS w)) ''log.txt'')
                     (insert (train_dir (FLAGS w)) (paths w))))) (train_dir (FLAGS w))
        then restore_events e (train_dir (FLAGS w)) else fresh_events e (train_dir (FLAGS w)))
     @ (if fst (train_branch e bd a b c d f g w) = Returned then [Model_train a b c f d g]
        else [])
     @ [Session_exit]"
  by (simp add: train_branch_def Let_def split_beta initialize_model_fst initialize_model_trace
     )

lemma show_examples_branch_rest [simp]:
  "FLAGS (snd (show_examples_branch e bd a b c w)) = FLAGS w"
  "environ (snd (show_examples_branch e bd a b c w)) = environ w"
  "paths (snd (show_examples_branch e bd a b c w)) = paths w"
  by (simp_all add: show_examples_branch_def Let_def split_beta)

lemma show_examples_branch_fst:
  "fst (show_examples_branch e bd a b c w) =
     (if found_checkpoint e (paths w) bd then restore_outcome e bd
      else Raised (''There is no saved checkpoint at '' @ bd))"
  by (simp add: show_examples_branch_def Let_def split_beta initialize_model_fst
     )

lemma show_examples_branch_trace:
  "trace (snd (show_examples_branch e bd a b c w)) =
     trace w @ [Session_enter, Print (''Looking for model at '' @ bd @ ''...''),
                Checkpoint_lookup bd]
     @ (if found_checkpoint e (paths w) bd
        then restore_events e bd
          @ (if restore_outcome e bd = Returned then [Check_f1_em a b c ''dev'' 10 True]
             else [])
        else [])
     @ [Session_exit]"
  by (simp add: show_examples_branch_def Let_def split_beta initialize_model_fst
      initialize_model_trace)

lemma official_eval_branch_rest [simp]:
  "FLAGS (snd (official_eval_branch e w)) = FLAGS w"
  "environ (snd (official_eval_branch e w)) = environ w"
  by (simp_all add: official_eval_branch_def Let_def split_beta)

lemma official_eval_branch_fst:
  "fst (official_eval_branch e w) =
     (if json_in_path (FLAGS w) = []
      then Raised ''For official_eval mode, you need to specify --json_in_path''
      else if ckpt_load_dir (FLAGS w) = []
      then Raised ''For official_eval mode, you need to specify --ckpt_load_dir''
      else if found_checkpoint e (paths w) (ckpt_load_dir (FLAGS w))
      then restore_outcome e (ckpt_load_dir (FLAGS w))
      else Raised (''There is no saved checkpoint at '' @ ckpt_load_dir (FLAGS w)))"
  by (simp add: official_eval_branch_def Let_def split_beta initialize_model_fst
     )

lemma official_eval_branch_trace:
  "trace (snd (official_eval_branch e w)) =
     (if json_in_path (FLAGS w) = [] \<or> ckpt_load_dir (FLAGS w) = [] then trace w
      else trace w @ [Read_json_data (json_in_path (FLAGS w)), Session_enter,
             Print (''Looking for model at '' @ ckpt_load_dir (FLAGS w) @ ''...''),
             Checkpoint_lookup (ckpt_load_dir (FLAGS w))]
        @ (if found_checkpoint e (paths w) (ckpt_load_dir (FLAGS w))
           then restore_events e (ckpt_load_dir (FLAGS w))
             @ (if restore_outcome e (ckpt_load_dir (FLAGS w)) = Returned
                then [Answers_generated,
                      Print (''Writing predictions to '' @ json_out_path (FLAGS w) @ ''...''),
                      Write_answers (json_out_path (FLAGS w))
                        (generate_answers e (get_json_data e (json_in_path (FLAGS w)))),
                      Print (''Wrote predictions to '' @ json_out_path (FLAGS w))]
                else [])
           else [])
        @ [Session_exit])"
  by (simp add: official_eval_branch_def Let_def split_beta initialize_model_fst
      initialize_model_trace)

subsection \<open>\<^verbatim>\<open>main\<close>\<close>

lemma filled_FLAGS_simps [simp]:
  "mode (filled_FLAGS e F) = mode F" "experiment_name (filled_FLAGS e F) = experiment_name F"
  "data_dir (filled_FLAGS e F) = data_dir F" "embedding_size (filled_FLAGS e F) = embedding_size F"
  "json_in_path (filled_FLAGS e F) = json_in_path F"
  "json_out_path (filled_FLAGS e F) = json_out_path F"
  "ckpt_load_dir (filled_FLAGS e F) = ckpt_load_dir F"
  by (simp_all add: filled_FLAGS_def)

lemma main_bad_argv:
  "length argv \<noteq> 1 \<Longrightarrow>
   main e argv w =
     (Raised (''There is a problem with how you entered flags: ''
              @ str_list (version_major e) argv), w)"
  by (simp add: main_def)

lemma main_bad_version:
  "length argv = 1 \<Longrightarrow> version_major e \<noteq> 3 \<Longrightarrow>
   main e argv w = (Raised (''ERROR: You must use Python 2 but you are running Python ''
                            @ str_int (version_major e)), w)"
  by (simp add: main_def)

lemma main_no_name:
  "length argv = 1 \<Longrightarrow> version_major e = 3 \<Longrightarrow> experiment_name (FLAGS w) = [] \<Longrightarrow>
   train_dir (FLAGS w) = [] \<Longrightarrow> mode (FLAGS w) \<noteq> ''official_eval'' \<Longrightarrow>
   main e argv w =
     (Raised ''You need to specify either --experiment_name or --train_dir'',
      emit (Print (''This code was developed and tested on TensorFlow 1.8.0. ''
                   @ ''Your TensorFlow version: '' @ tf_version e)) w)"
  by (simp add: main_def Let_def)


text \<open>Past the three checks, \<^verbatim>\<open>main\<close> is one of the branches, run in the world with the
  defaults filled in and the model built.\<close>

lemma main_dispatch:
  assumes "passes_checks e argv (FLAGS w)"
  shows "main e argv w =
    (let F = filled_FLAGS e (FLAGS w);
         w6 = w\<lparr>FLAGS := F, trace := trace w @ setup_events e F\<rparr>;
         bd = path_join (train_dir F) ''best_checkpoint''
     in if mode F = ''train''
        then train_branch e bd (path_join (data_dir F) ''train.context'')
               (path_join (data_dir F) ''train.question'') (path_join (data_dir F) ''train.span'')
               (path_join (data_dir F) ''dev.context'') (path_join (data_dir F) ''dev.question'')
               (path_join (data_dir F) ''dev.span'') w6
        else if mode F = ''show_examples''
        then show_examples_branch e bd (path_join (data_dir F) ''dev.context'')
               (path_join (data_dir F) ''dev.question'') (path_join (data_dir F) ''dev.span'') w6
        else if mode F = ''official_eval'' then official_eval_branch e w6
        else (Raised (''Unexpected value of FLAGS.mode: '' @ mode F), w6))"
proof -
  have c: "length argv = 1" "version_major e = 3"
    "\<not> (experiment_name (FLAGS w) = [] \<and> train_dir (FLAGS w) = [] \<and> mode (FLAGS w) \<noteq> ''official_eval'')"
    using assms by (auto simp add: passes_checks_def)
  show ?thesis
    apply (subst main_def)
    apply (simp only: c if_True if_False not_not refl)
    apply (simp only: Let_def)
    apply (simp only: emit_simps c if_False)
    apply (simp add: emit_def filled_FLAGS_def setup_events_def Let_def)
    done
qed

lemma fails_cases:
  assumes "\<not> passes_checks e argv F"
  obtains (argv) "length argv \<noteq> 1"
  | (version) "length argv = 1" "version_major e \<noteq> 3"
  | (name) "length argv = 1" "version_major e = 3" "experiment_name F = []"
      "train_dir F = []" "mode F \<noteq> ''official_eval''"
  using assms by (auto simp: passes_checks_def)

lemma main_FLAGS:
  "FLAGS (snd (main e argv w)) =
     (if passes_checks e argv (FLAGS w) then filled_FLAGS e (FLAGS w) else FLAGS w)"
proof (cases "passes_checks e argv (FLAGS w)")
  case True
  then show ?thesis by (simp add: main_dispatch Let_def)
next
  case False
  then show ?thesis
    by (cases rule: fails_cases)
      (simp_all add: False main_bad_argv main_bad_version main_no_name)
qed

lemma main_environ [simp]: "environ (snd (main e argv w)) = environ w"
proof (cases "passes_checks e argv (FLAGS w)")
  case True
  then show ?thesis by (simp add: main_dispatch Let_def)
next
  case False
  then show ?thesis
    by (cases rule: fails_cases)
      (simp_all add: False main_bad_argv main_bad_version main_no_name)
qed

lemma main_fst_fails:
  assumes "\<not> passes_checks e argv (FLAGS w)"
  shows "fst (main e argv w) =
     Raised (if length argv \<noteq> 1
             then ''There is a problem with how you entered flags: ''
                  @ str_list (version_major e) argv
             else if version_major e \<noteq> 3
             then ''ERROR: You must use Python 2 but you are running Python ''
                  @ str_int (version_major e)
             else ''You need to specify either --experiment_name or --train_dir'')"
  using assms
  by (cases rule: fails_cases) (simp_all add: main_bad_argv main_bad_version main_no_name)

lemma main_fst_passes:
  "passes_checks e argv (FLAGS w) \<Longrightarrow>
   fst (main e argv w) =
     (if mode (FLAGS w) = ''train''
      then (if found_checkpoint e
                 (insert (path_join (train_dir (filled_FLAGS e (FLAGS w))) ''best_checkpoint'')
                    (insert (path_join (train_dir (filled_FLAGS e (FLAGS w))) ''flags.json'')
                       (insert (path_join (train_dir (filled_FLAGS e (FLAGS w))) ''log.txt'')
                          (insert (train_dir (filled_FLAGS e (FLAGS w))) (paths w)))))
                 (train_dir (filled_FLAGS e (FLAGS w)))
            then restore_outcome e (train_dir (filled_FLAGS e (FLAGS w))) else Returned)
      else if mode (FLAGS w) = ''show_examples''
      then (if found_checkpoint e (paths w)
                 (path_join (train_dir (filled_FLAGS e (FLAGS w))) ''best_checkpoint'')
            then restore_outcome e
                   (path_join (train_dir (filled_FLAGS e (FLAGS w))) ''best_checkpoint'')
            else Raised (''There is no saved checkpoint at ''
                   @ path_join (train_dir (filled_FLAGS e (FLAGS w))) ''best_checkpoint''))
      else if mode (FLAGS w) = ''official_eval''
      then (if json_in_path (FLAGS w) = []
            then Raised ''For official_eval mode, you need to specify --json_in_path''
            else if ckpt_load_dir (FLAGS w) = []
            then Raised ''For official_eval mode, you need to specify --ckpt_load_dir''
            else if found_checkpoint e (paths w) (ckpt_load_dir (FLAGS w))
            then restore_outcome e (ckpt_load_dir (FLAGS w))
            else Raised (''There is no saved checkpoint at '' @ ckpt_load_dir (FLAGS w)))
      else Raised (''Unexpected value of FLAGS.mode: '' @ mode (FLAGS w)))"
  by (simp add: main_dispatch Let_def train_branch_fst show_examples_branch_fst
      official_eval_branch_fst)

lemma main_trace_fails:
  assumes "\<not> passes_checks e argv (FLAGS w)"
  shows "trace (snd (main e argv w)) =
     trace w @ (if length argv = 1 \<and> version_major e = 3
                then [Print (''This code was developed and tested on TensorFlow 1.8.0. ''
                             @ ''Your TensorFlow version: '' @ tf_version e)]
                else [])"
  using assms
  by (cases rule: fails_cases) (simp_all add: main_bad_argv main_bad_version main_no_name)

lemma main_trace_passes:
  "passes_checks e argv (FLAGS w) \<Longrightarrow>
   trace (snd (main e argv w)) =
     (let F = filled_FLAGS e (FLAGS w);
          w6 = w\<lparr>FLAGS := F, trace := trace w @ setup_events e F\<rparr>;
          bd = path_join (train_dir F) ''best_checkpoint''
      in if mode F = ''train''
         then trace (snd (train_branch e bd (path_join (data_dir F) ''train.context'')
               (path_join (data_dir F) ''train.question'') (path_join (data_dir F) ''train.span'')
               (path_join (data_dir F) ''dev.context'') (path_join (data_dir F) ''dev.question'')
               (path_join (data_dir F) ''dev.span'') w6))
         else if mode F = ''show_examples''
         then trace (snd (show_examples_branch e bd (path_join (data_dir F) ''dev.context'')
               (path_join (data_dir F) ''dev.question'') (path_join (data_dir F) ''dev.span'') w6))
         else if mode F = ''official_eval'' then trace (snd (official_eval_branch e w6))
         else trace w6)"
  by (simp add: main_dispatch Let_def)

lemma path_join_relative:
  "b \<noteq> [] \<Longrightarrow> hd b \<noteq> CHR ''/'' \<Longrightarrow>
   path_join a b = a @ (if a = [] \<or> last a = CHR ''/'' then b else CHR ''/'' # b)"
  by (simp add: path_join_def)

lemma best_checkpoint_new [simp]:
  "path_join a ''best_checkpoint'' \<noteq> a"
  "path_join a ''best_checkpoint'' \<noteq> path_join a ''flags.json''"
  "path_join a ''best_checkpoint'' \<noteq> path_join a ''log.txt''"
  by (simp_all add: path_join_def)

lemma main_trace_setup:
  assumes "passes_checks e argv (FLAGS w)"
  shows "\<exists>es. trace (snd (main e argv w)) =
           trace w @ setup_events e (filled_FLAGS e (FLAGS w)) @ es"
  using assms
  by (simp add: main_trace_passes Let_def train_branch_trace show_examples_branch_trace
      official_eval_branch_trace)

lemma EXPERIMENTS_DIR_join:
  "b \<noteq> [] \<Longrightarrow> hd b \<noteq> CHR ''/'' \<Longrightarrow> path_join (EXPERIMENTS_DIR e) b = EXPERIMENTS_DIR e @ ''/'' @ b"
  by (simp add: EXPERIMENTS_DIR_def path_join_def)

lemma DEFAULT_DATA_DIR_join:
  "b \<noteq> [] \<Longrightarrow> hd b \<noteq> CHR ''/'' \<Longrightarrow> path_join (DEFAULT_DATA_DIR e) b = DEFAULT_DATA_DIR e @ ''/'' @ b"
  by (simp add: DEFAULT_DATA_DIR_def path_join_def)

lemma example_dirs:
  "EXPERIMENTS_DIR example_env = ''./experiments''" "DEFAULT_DATA_DIR example_env = ''./data''"
  by (simp_all add: EXPERIMENTS_DIR_def DEFAULT_DATA_DIR_def path_join_def example_env_def)

lemma example_env_simps [simp]:
  "version_major example_env = 3" "tf_version example_env = ''1.8.0''"
  "MAIN_DIR example_env = ''.''" "tf_parse_flags example_env argv = Some argv"
  by (simp_all add: example_env_def)

lemma damaged_env_simps [simp]:
  "get_checkpoint_state damaged_env ''run'' = Some ''run/qa.ckpt-5''"
  "saver_restore damaged_env ''run/qa.ckpt-5'' = Some ''DataLossError''"
  by (simp_all add: damaged_env_def example_env_def)

lemma undefok_env_simps [simp]:
  "version_major undefok_env = 3"
  "tf_parse_flags undefok_env argv = Some (remove1 ''--undefok=x'' argv)"
  by (simp_all add: undefok_env_def)

lemma example_restore_outcome [simp]:
  "restore_outcome example_env dir = Returned"
  "restore_outcome damaged_env ''run'' = Framework_raised ''DataLossError''"
  by (simp_all add: restore_outcome_def checkpoint_path_def example_env_def damaged_env_def)

lemma example_world_simps [simp]:
  "FLAGS (example_world F) = F" "paths (example_world F) = {''run/qa.ckpt-5.index''}"
  "trace (example_world F) = []"
  by (simp_all add: example_world_def)

lemma train_flags_simps [simp]:
  "mode train_flags = ''train''" "experiment_name train_flags = ''e1''"
  "train_dir train_flags = []" "glove_path train_flags = []"
  "embedding_size train_flags = 100" "data_dir train_flags = ''./data''"
  by (simp_all add: train_flags_def default_FLAGS_def example_dirs)

lemma eval_flags_simps [simp]:
  "mode eval_flags = ''official_eval''" "experiment_name eval_flags = []"
  "train_dir eval_flags = []" "glove_path eval_flags = []"
  "embedding_size eval_flags = 100" "data_dir eval_flags = ''./data''"
  "json_in_path eval_flags = ''in.json''" "ckpt_load_dir eval_flags = ''run''"
  "json_out_path eval_flags = ''predictions.json''"
  by (simp_all add: eval_flags_def default_FLAGS_def example_dirs)

lemma str_int_100: "str_int 100 = ''100''"
  by (simp add: str_int_def str_nat.simps)

lemma checks_passed:
  "length argv = 1 \<Longrightarrow> version_major e = 3 \<Longrightarrow>
   experiment_name F \<noteq> [] \<or> train_dir F \<noteq> [] \<or> mode F = ''official_eval'' \<Longrightarrow>
   passes_checks e argv F"
  by (simp add: passes_checks_def)

subsection \<open>The trace of each mode\<close>

lemma official_eval_branch_paths:
  "paths (snd (official_eval_branch e w)) =
     (if json_in_path (FLAGS w) \<noteq> [] \<and> ckpt_load_dir (FLAGS w) \<noteq> []
         \<and> found_checkpoint e (paths w) (ckpt_load_dir (FLAGS w))
         \<and> restore_outcome e (ckpt_load_dir (FLAGS w)) = Returned
      then insert (json_out_path (FLAGS w)) (paths w) else paths w)"
  by (simp add: official_eval_branch_def Let_def split_beta initialize_model_fst)

lemma main_trace_train:
  assumes "passes_checks e argv (FLAGS w)" and "mode (FLAGS w) = ''train''"
  shows "trace (snd (main e argv w)) =
    (let F = filled_FLAGS e (FLAGS w); run = train_dir F;
         best = path_join run ''best_checkpoint''; d = data_dir F
     in trace w @ setup_events e F
        @ (if run \<in> paths w then [] else [Makedirs run])
        @ [Add_log_file (path_join run ''log.txt''),
           Json_dump_flags (path_join run ''flags.json'') F]
        @ (if best \<in> paths w then [] else [Makedirs best])
        @ [Session_enter, Print (''Looking for model at '' @ run @ ''...''),
           Checkpoint_lookup run]
        @ (if found_checkpoint e
                (insert best (insert (path_join run ''flags.json'')
                   (insert (path_join run ''log.txt'') (insert run (paths w))))) run
           then restore_events e run else fresh_events e run)
        @ (if fst (main e argv w) = Returned
           then [Model_train (path_join d ''train.context'') (path_join d ''train.question'')
                   (path_join d ''train.span'') (path_join d ''dev.question'')
                   (path_join d ''dev.context'') (path_join d ''dev.span'')]
           else [])
        @ [Session_exit])"
  using assms
  by (simp add: main_trace_passes main_fst_passes Let_def train_branch_trace train_branch_fst)

lemma main_paths_train:
  assumes "passes_checks e argv (FLAGS w)" and "mode (FLAGS w) = ''train''"
  shows "paths (snd (main e argv w)) =
    (let run = train_dir (filled_FLAGS e (FLAGS w))
     in insert (path_join run ''best_checkpoint'') (insert (path_join run ''flags.json'')
          (insert (path_join run ''log.txt'') (insert run (paths w)))))"
  using assms by (simp add: main_dispatch Let_def)

lemma main_trace_show_examples:
  assumes "passes_checks e argv (FLAGS w)" and "mode (FLAGS w) = ''show_examples''"
  shows "trace (snd (main e argv w)) =
    (let F = filled_FLAGS e (FLAGS w); best = path_join (train_dir F) ''best_checkpoint'';
         d = data_dir F
     in trace w @ setup_events e F
        @ [Session_enter, Print (''Looking for model at '' @ best @ ''...''),
           Checkpoint_lookup best]
        @ (if found_checkpoint e (paths w) best
           then restore_events e best
             @ (if restore_outcome e best = Returned
                then [Check_f1_em (path_join d ''dev.context'') (path_join d ''dev.question'')
                        (path_join d ''dev.span'') ''dev'' 10 True]
                else [])
           else [])
        @ [Session_exit])"
  using assms by (simp add: main_trace_passes Let_def show_examples_branch_trace)

lemma main_trace_official_eval:
  assumes "passes_checks e argv (FLAGS w)" and "mode (FLAGS w) = ''official_eval''"
  shows "trace (snd (main e argv w)) =
    (let F = filled_FLAGS e (FLAGS w)
     in trace w @ setup_events e F
        @ (if json_in_path (FLAGS w) = [] \<or> ckpt_load_dir (FLAGS w) = [] then []
           else [Read_json_data (json_in_path (FLAGS w)), Session_enter,
                 Print (''Looking for model at '' @ ckpt_load_dir (FLAGS w) @ ''...''),
                 Checkpoint_lookup (ckpt_load_dir (FLAGS w))]
             @ (if found_checkpoint e (paths w) (ckpt_load_dir (FLAGS w))
                then restore_events e (ckpt_load_dir (FLAGS w))
                  @ (if restore_outcome e (ckpt_load_dir (FLAGS w)) = Returned
                     then [Answers_generated,
                           Print (''Writing predictions to '' @ json_out_path (FLAGS w)
                                  @ ''...''),
                           Write_answers (json_out_path (FLAGS w))
                             (generate_answers e (get_json_data e (json_in_path (FLAGS w)))),
                           Print (''Wrote predictions to '' @ json_out_path (FLAGS w))]
                     else [])
                else [])
             @ [Session_exit]))"
  using assms by (simp add: main_trace_passes Let_def official_eval_branch_trace)

lemma main_trace_other:
  assumes "passes_checks e argv (FLAGS w)" and "mode (FLAGS w) \<noteq> ''train''"
    and "mode (FLAGS w) \<noteq> ''show_examples''" and "mode (FLAGS w) \<noteq> ''official_eval''"
  shows "trace (snd (main e argv w)) = trace w @ setup_events e (filled_FLAGS e (FLAGS w))"
  using assms by (simp add: main_trace_passes Let_def)

subsection \<open>The events of \<^verbatim>\<open>main\<close>\<close>

lemma main_events_eq:
  "trace (snd (main e argv w)) = trace w @ es \<Longrightarrow> main_events e argv w = es"
  by (simp add: main_events_def)

lemma main_events_fails:
  "\<not> passes_checks e argv (FLAGS w) \<Longrightarrow> set (main_events e argv w) \<subseteq> range Print"
  by (drule main_trace_fails, drule main_events_eq) (auto split: if_splits)

lemma neutral_events:
  "x \<in> set (setup_events e F) \<Longrightarrow>
     \<not> train_event x \<and> \<not> show_examples_event x \<and> \<not> official_eval_event x"
  "x \<in> set (restore_events e dir) \<Longrightarrow>
     \<not> train_event x \<and> \<not> show_examples_event x \<and> \<not> official_eval_event x"
  "x \<in> set (fresh_events e dir) \<Longrightarrow>
     \<not> train_event x \<and> \<not> show_examples_event x \<and> \<not> official_eval_event x"
  by (auto simp: setup_events_def restore_events_def fresh_events_def)


lemma main_trace_flags:
  assumes "x \<in> set (trace (snd (main e argv w)))" and "flags_of_event x = Some G"
  shows "x \<in> set (trace w) \<or> G = FLAGS (snd (main e argv w))"
proof (cases "passes_checks e argv (FLAGS w)")
  case False
  with assms show ?thesis
    by (auto simp: main_trace_fails split: if_splits)
next
  case True
  then have F: "FLAGS (snd (main e argv w)) = filled_FLAGS e (FLAGS w)"
    by (simp add: main_FLAGS)
  have built: "G = filled_FLAGS e (FLAGS w)"
    if "x \<in> set (setup_events e (filled_FLAGS e (FLAGS w)))"
    using that assms(2) by (auto simp: setup_events_def)
  have none: "False" if "x \<in> set (restore_events e dir) \<or> x \<in> set (fresh_events e dir)" for dir
    using that assms(2) by (auto simp: restore_events_def fresh_events_def)
  consider (train) "mode (FLAGS w) = ''train''"
    | (show_examples) "mode (FLAGS w) = ''show_examples''"
    | (official_eval) "mode (FLAGS w) = ''official_eval''"
    | (other) "mode (FLAGS w) \<noteq> ''train''" "mode (FLAGS w) \<noteq> ''show_examples''"
        "mode (FLAGS w) \<noteq> ''official_eval''"
    by blast
  then show ?thesis
  proof cases
    case train
    from assms(1) show ?thesis
      unfolding main_trace_train [OF True train] F Let_def
      using assms(2) built none by (auto split: if_splits)
  next
    case show_examples
    from assms(1) show ?thesis
      unfolding main_trace_show_examples [OF True show_examples] F Let_def
      using assms(2) built none by (auto split: if_splits)
  next
    case official_eval
    from assms(1) show ?thesis
      unfolding main_trace_official_eval [OF True official_eval] F Let_def
      using assms(2) built none by (auto split: if_splits)
  next
    case other
    from assms(1) show ?thesis
      unfolding main_trace_other [OF True other] F
      using built by auto
  qed
qed

subsection \<open>The script\<close>

lemma script_main:
  "script e argv0 parsed unparsed fs vars =
     (let w2 = \<lparr>FLAGS = parsed, paths = fs,
                environ = vars(''CUDA_VISIBLE_DEVICES'' \<mapsto> str_int (gpu parsed)),
                trace = [Import ''tensorflow'', Import ''qa_model'', Import ''vocab'',
                         Import ''official_eval_helper'', Logging_basicConfig,
                         Parse_known_args,
                         Set_environ ''CUDA_VISIBLE_DEVICES'' (str_int (gpu parsed)),
                         Tf_app_run (argv0 # unparsed)]\<rparr>
      in case tf_parse_flags e (argv0 # unparsed) of
           None \<Rightarrow> (Exited, w2)
         | Some argv \<Rightarrow> main e argv w2)"
  by (simp add: script_def Let_def emit_def split: option.splits)

lemma script_FLAGS:
  "FLAGS (snd (script e argv0 parsed unparsed fs vars)) =
     (case tf_parse_flags e (argv0 # unparsed) of
        None \<Rightarrow> parsed
      | Some argv \<Rightarrow> if passes_checks e argv parsed then filled_FLAGS e parsed else parsed)"
  by (simp add: script_main Let_def main_FLAGS split: option.splits)

lemma script_trace_flags:
  assumes "x \<in> set (trace (snd (script e argv0 parsed unparsed fs vars)))"
    and "flags_of_event x = Some G"
  shows "G = FLAGS (snd (script e argv0 parsed unparsed fs vars))"
proof (cases "tf_parse_flags e (argv0 # unparsed)")
  case None
  with assms show ?thesis
    by (auto simp: script_main Let_def)
next
  case (Some argv)
  let ?w = "\<lparr>FLAGS = parsed, paths = fs,
        environ = vars(''CUDA_VISIBLE_DEVICES'' \<mapsto> str_int (gpu parsed)),
        trace = [Import ''tensorflow'', Import ''qa_model'', Import ''vocab'',
                 Import ''official_eval_helper'', Logging_basicConfig, Parse_known_args,
                 Set_environ ''CUDA_VISIBLE_DEVICES'' (str_int (gpu parsed)),
                 Tf_app_run (argv0 # unparsed)]\<rparr>"
  have s: "script e argv0 parsed unparsed fs vars = main e argv ?w"
    using Some by (simp add: script_main Let_def)
  have "x \<in> set (trace (snd (main e argv ?w)))"
    using assms(1) by (simp only: s)
  from main_trace_flags [OF this assms(2)] have "G = FLAGS (snd (main e argv ?w))"
    using assms(2) by auto
  then show ?thesis
    by (simp only: s)
qed

lemma script_builds_model:
  assumes "tf_parse_flags e (argv0 # unparsed) = Some argv" and "passes_checks e argv parsed"
  shows "QAModel_init (filled_FLAGS e parsed)
           \<in> set (trace (snd (script e argv0 parsed unparsed fs vars)))"
proof -
  let ?w = "\<lparr>FLAGS = parsed, paths = fs,
        environ = vars(''CUDA_VISIBLE_DEVICES'' \<mapsto> str_int (gpu parsed)),
        trace = [Import ''tensorflow'', Import ''qa_model'', Import ''vocab'',
                 Import ''official_eval_helper'', Logging_basicConfig, Parse_known_args,
                 Set_environ ''CUDA_VISIBLE_DEVICES'' (str_int (gpu parsed)),
                 Tf_app_run (argv0 # unparsed)]\<rparr>"
  have "passes_checks e argv (FLAGS ?w)"
    using assms by simp
  from main_trace_setup [OF this] show ?thesis
    using assms(1) by (auto simp: script_main setup_events_def)
qed

section \<open>The claims\<close>

text \<open>
  C1 as stated speaks of directories with no readable checkpoint. In the directory \<^verbatim>\<open>run\<close>
  the checkpoint file exists but is damaged: the directory has no readable checkpoint, and
  yet \<^verbatim>\<open>initialize_model\<close> with \<^verbatim>\<open>expect_exists=False\<close> neither proceeds without error nor
  initializes the parameters from scratch. It attempts the restore, and the framework's
  error ends the call.
\<close>

theorem initialize_model_damaged_checkpoint:
  "\<not> readable_checkpoint damaged_env (paths (example_world train_flags)) ''run''
   \<and> initialize_model damaged_env ''run'' False (example_world train_flags) =
       (Framework_raised ''DataLossError'',
        (example_world train_flags)
          \<lparr>trace := [Print ''Looking for model at run...'', Checkpoint_lookup ''run'',
                      Print ''Reading model parameters from run/qa.ckpt-5'',
                      Saver_restore ''run/qa.ckpt-5'']\<rparr>)"
  by (simp add: readable_checkpoint_def initialize_model_def Let_def example_world_def
      emit_def)

text \<open>
  C1 (as the code has it). In \<^verbatim>\<open>initialize_model\<close>, for every directory in which the test
  of line 57 finds no checkpoint (there is no checkpoint state, or neither the checkpoint
  file nor its \<^verbatim>\<open>.index\<close> file exists): with \<^verbatim>\<open>expect_exists\<close> true the call raises, with
  \<^verbatim>\<open>expect_exists\<close> false it returns, having initialized the parameters from scratch and
  printed the total number of trainable parameters (the sum over the variables of the
  product of their dimensions). For a directory in which a checkpoint is found, the call
  attempts to restore the parameters from it, whatever \<^verbatim>\<open>expect_exists\<close> is: it returns
  when the framework can read the checkpoint, and the framework's error comes out of it
  when it cannot.
\<close>

theorem initialize_model_checkpoint:
  "(\<not> found_checkpoint e (paths w) dir \<longrightarrow>
      initialize_model e dir True w =
        (Raised (''There is no saved checkpoint at '' @ dir),
         w\<lparr>trace := trace w @ [Print (''Looking for model at '' @ dir @ ''...''),
                                Checkpoint_lookup dir]\<rparr>)
      \<and> initialize_model e dir False w =
        (Returned,
         w\<lparr>trace := trace w @ [Print (''Looking for model at '' @ dir @ ''...''),
                                Checkpoint_lookup dir,
                                Print (''There is no saved checkpoint at '' @ dir
                                       @ ''. Creating model with fresh parameters.''),
                                Global_variables_initializer,
                                Print (''Num params: ''
                                  @ str_int (sum_list (map prod_list (trainable_variables e))))]\<rparr>))
   \<and> (found_checkpoint e (paths w) dir \<longrightarrow>
      initialize_model e dir expect_exists w =
        (case saver_restore e (checkpoint_path e dir) of
           None \<Rightarrow> Returned
         | Some err \<Rightarrow> Framework_raised err,
         w\<lparr>trace := trace w @ [Print (''Looking for model at '' @ dir @ ''...''),
                                Checkpoint_lookup dir,
                                Print (''Reading model parameters from '' @ checkpoint_path e dir),
                                Saver_restore (checkpoint_path e dir)]\<rparr>))
   \<and> (readable_checkpoint e (paths w) dir \<longrightarrow>
        fst (initialize_model e dir expect_exists w) = Returned)"
proof -
  have eq: "initialize_model e dir b w = (r, v)"
    if "fst (initialize_model e dir b w) = r" "trace (snd (initialize_model e dir b w)) = trace v"
      "FLAGS v = FLAGS w" "paths v = paths w" "environ v = environ w" for b r v
    using that by (intro prod_eqI world_eqI) simp_all
  show ?thesis
    by (intro conjI impI eq)
      (simp_all add: initialize_model_fst initialize_model_trace fresh_events_def
        restore_events_def restore_outcome_def readable_checkpoint_def)
qed

theorem initialize_model_checkpoint_witness:
  "\<not> found_checkpoint example_env (paths (example_world train_flags)) ''empty''
   \<and> found_checkpoint example_env (paths (example_world train_flags)) ''run''
   \<and> readable_checkpoint example_env (paths (example_world train_flags)) ''run''
   \<and> fst (initialize_model example_env ''empty'' True (example_world train_flags)) =
       Raised ''There is no saved checkpoint at empty''
   \<and> fst (initialize_model example_env ''empty'' False (example_world train_flags)) = Returned
   \<and> trace (snd (initialize_model example_env ''empty'' False (example_world train_flags))) =
       [Print ''Looking for model at empty...'', Checkpoint_lookup ''empty'',
        Print ''There is no saved checkpoint at empty. Creating model with fresh parameters.'',
        Global_variables_initializer, Print ''Num params: 10'']
   \<and> initialize_model example_env ''run'' True (example_world train_flags) =
       (Returned,
        (example_world train_flags)
          \<lparr>trace := [Print ''Looking for model at run...'', Checkpoint_lookup ''run'',
                      Print ''Reading model parameters from run/qa.ckpt-5'',
                      Saver_restore ''run/qa.ckpt-5'']\<rparr>)"
proof -
  have absent: "\<not> found_checkpoint example_env (paths (example_world train_flags)) ''empty''"
    by (simp add: found_checkpoint_def example_env_def)
  have present: "found_checkpoint example_env (paths (example_world train_flags)) ''run''"
    by (simp add: found_checkpoint_def example_env_def)
  have readable: "readable_checkpoint example_env (paths (example_world train_flags)) ''run''"
    using present by (simp add: readable_checkpoint_def)
  have n: "str_int (sum_list (map prod_list (trainable_variables example_env))) = ''10''"
    by (simp add: example_env_def str_int_def str_nat.simps)
  have p: "checkpoint_path example_env ''run'' = ''run/qa.ckpt-5''"
      "saver_restore example_env ''run/qa.ckpt-5'' = None"
    by (simp_all add: checkpoint_path_def example_env_def)
  show ?thesis
    using initialize_model_checkpoint
      [of example_env "example_world train_flags" "''empty''" True]
      initialize_model_checkpoint
      [of example_env "example_world train_flags" "''run''" True]
      absent present readable
    by (simp add: n p)
qed

text \<open>
  C2 (as the code has it). In \<^verbatim>\<open>train\<close> mode, once the checks of lines 71 to 83 have passed
  and the model is built, \<^verbatim>\<open>main\<close> does, in this order: creates the run directory if it is
  absent, attaches the log file, writes the configuration to \<^verbatim>\<open>flags.json\<close> in the run
  directory, creates the best-checkpoint subdirectory if it is absent, opens a session,
  calls \<^verbatim>\<open>initialize_model\<close> on the run directory with \<^verbatim>\<open>expect_exists=False\<close> (an attempt
  to restore the checkpoint found, or the creation of fresh parameters if none is found),
  and then, that call having returned, calls the model's training loop with the train
  context, question and answer paths and the dev question, context and answer paths. Both
  directories exist afterwards. The run returns unless the framework cannot read the
  checkpoint found; then its error ends the run before the training loop.
\<close>

theorem main_train_steps:
  assumes "length argv = 1" and "version_major e = 3" and "mode (FLAGS w) = ''train''"
    and "experiment_name (FLAGS w) \<noteq> [] \<or> train_dir (FLAGS w) \<noteq> []"
  shows "let F = filled_FLAGS e (FLAGS w); run = train_dir F;
             best = path_join run ''best_checkpoint''; d = data_dir F;
             (r, w') = main e argv w
         in r = (if found_checkpoint e (paths w') run then restore_outcome e run
                 else Returned)
            \<and> FLAGS w' = F \<and> run \<in> paths w' \<and> best \<in> paths w'
            \<and> trace w' =
                trace w @ setup_events e F
                @ (if run \<in> paths w then [] else [Makedirs run])
                @ [Add_log_file (path_join run ''log.txt''),
                   Json_dump_flags (path_join run ''flags.json'') F]
                @ (if best \<in> paths w then [] else [Makedirs best])
                @ [Session_enter, Print (''Looking for model at '' @ run @ ''...''),
                   Checkpoint_lookup run]
                @ (if found_checkpoint e (paths w') run
                   then restore_events e run else fresh_events e run)
                @ (if r = Returned
                   then [Model_train (path_join d ''train.context'')
                           (path_join d ''train.question'') (path_join d ''train.span'')
                           (path_join d ''dev.question'') (path_join d ''dev.context'')
                           (path_join d ''dev.span'')]
                   else [])
                @ [Session_exit]"
proof -
  have p: "passes_checks e argv (FLAGS w)"
    using assms by (simp add: passes_checks_def)
  have "FLAGS (snd (main e argv w)) = filled_FLAGS e (FLAGS w)"
    using p by (simp add: main_FLAGS)
  moreover note main_paths_train [OF p assms(3)] main_trace_train [OF p assms(3)]
    main_fst_passes [OF p]
  ultimately show ?thesis
    using assms(3) by (simp add: Let_def split_beta)
qed

theorem main_train_steps_witness:
  "length [''main.py''] = 1 \<and> version_major example_env = 3
   \<and> mode (FLAGS (example_world train_flags)) = ''train''
   \<and> experiment_name (FLAGS (example_world train_flags)) \<noteq> []
   \<and> fst (main example_env [''main.py''] (example_world train_flags)) = Returned
   \<and> trace (snd (main example_env [''main.py''] (example_world train_flags))) =
       setup_events example_env (filled_FLAGS example_env train_flags)
       @ [Makedirs ''./experiments/e1'', Add_log_file ''./experiments/e1/log.txt'',
          Json_dump_flags ''./experiments/e1/flags.json'' (filled_FLAGS example_env train_flags),
          Makedirs ''./experiments/e1/best_checkpoint'', Session_enter,
          Print ''Looking for model at ./experiments/e1...'',
          Checkpoint_lookup ''./experiments/e1'',
          Print (''There is no saved checkpoint at ./experiments/e1. ''
                 @ ''Creating model with fresh parameters.''),
          Global_variables_initializer, Print ''Num params: 10'',
          Model_train ''./data/train.context'' ''./data/train.question'' ''./data/train.span''
            ''./data/dev.question'' ''./data/dev.context'' ''./data/dev.span'',
          Session_exit]"
proof -
  have run: "train_dir (filled_FLAGS example_env train_flags) = ''./experiments/e1''"
    by (simp add: filled_FLAGS_def py_or_def example_dirs path_join_def)
  have absent: "\<not> found_checkpoint example_env P ''./experiments/e1''" for P
    by (simp add: found_checkpoint_def example_env_def)
  have n: "str_int (sum_list (map prod_list (trainable_variables example_env))) = ''10''"
    by (simp add: example_env_def str_int_def str_nat.simps)
  show ?thesis
    using main_train_steps [of "[''main.py'']" example_env "example_world train_flags"]
    by (simp add: Let_def split_beta run absent fresh_events_def n path_join_def)
qed

text \<open>
  C2 as stated puts the creation of both directories before the writing of the
  configuration. In the run of \<^verbatim>\<open>--experiment_name e1\<close> from a file system without the
  experiment's directories, the fifth to eighth events of \<^verbatim>\<open>main\<close> are: the run directory is
  created, the log file attached, \<^verbatim>\<open>flags.json\<close> written, and only then the best-checkpoint
  subdirectory created.
\<close>

theorem main_train_json_before_best_checkpoint_dir:
  "''./experiments/e1/best_checkpoint'' \<notin> paths (example_world train_flags)
   \<and> take 4 (drop 4 (trace (snd (main example_env [''main.py''] (example_world train_flags)))))
     = [Makedirs ''./experiments/e1'', Add_log_file ''./experiments/e1/log.txt'',
        Json_dump_flags ''./experiments/e1/flags.json'' (filled_FLAGS example_env train_flags),
        Makedirs ''./experiments/e1/best_checkpoint'']"
proof -
  have p: "passes_checks example_env [''main.py''] (FLAGS (example_world train_flags))"
    by (simp add: passes_checks_def)
  have run: "train_dir (filled_FLAGS example_env train_flags) = ''./experiments/e1''"
    by (simp add: filled_FLAGS_def py_or_def example_dirs path_join_def)
  show ?thesis
    using main_trace_train [OF p]
    by (simp add: Let_def run setup_events_def path_join_def)
qed

text \<open>
  C3. For every run whose mode is not \<^verbatim>\<open>official_eval\<close> and in which both
  \<^verbatim>\<open>--experiment_name\<close> and \<^verbatim>\<open>--train_dir\<close> are empty, \<^verbatim>\<open>main\<close> raises, with one of the
  messages of lines 72, 76 and 83: the one of line 83, which names the two flags, when the
  two earlier checks pass. In \<^verbatim>\<open>official_eval\<close> mode the error of line 83 is never
  raised.
\<close>

theorem main_needs_experiment_name_or_train_dir:
  "(mode (FLAGS w) \<noteq> ''official_eval'' \<and> experiment_name (FLAGS w) = []
      \<and> train_dir (FLAGS w) = [] \<longrightarrow>
      fst (main e argv w) =
        Raised (if length argv \<noteq> 1
                then ''There is a problem with how you entered flags: ''
                     @ str_list (version_major e) argv
                else if version_major e \<noteq> 3
                then ''ERROR: You must use Python 2 but you are running Python ''
                     @ str_int (version_major e)
                else ''You need to specify either --experiment_name or --train_dir''))
   \<and> (mode (FLAGS w) = ''official_eval'' \<longrightarrow>
      fst (main e argv w) \<noteq>
        Raised ''You need to specify either --experiment_name or --train_dir'')"
proof (intro conjI impI)
  assume "mode (FLAGS w) \<noteq> ''official_eval'' \<and> experiment_name (FLAGS w) = []
      \<and> train_dir (FLAGS w) = []"
  then have "\<not> passes_checks e argv (FLAGS w)"
    by (simp add: passes_checks_def)
  then show "fst (main e argv w) =
        Raised (if length argv \<noteq> 1
                then ''There is a problem with how you entered flags: ''
                     @ str_list (version_major e) argv
                else if version_major e \<noteq> 3
                then ''ERROR: You must use Python 2 but you are running Python ''
                     @ str_int (version_major e)
                else ''You need to specify either --experiment_name or --train_dir'')"
    by (rule main_fst_fails)
next
  assume oe: "mode (FLAGS w) = ''official_eval''"
  show "fst (main e argv w) \<noteq>
        Raised ''You need to specify either --experiment_name or --train_dir''"
  proof (cases "passes_checks e argv (FLAGS w)")
    case True
    then show ?thesis by (simp add: main_fst_passes oe)
  next
    case False
    then show ?thesis
      by (cases rule: fails_cases)
        (simp_all add: main_bad_argv main_bad_version oe)
  qed
qed

theorem main_needs_experiment_name_or_train_dir_witness:
  "mode (FLAGS (example_world (default_FLAGS example_env))) \<noteq> ''official_eval''
   \<and> experiment_name (FLAGS (example_world (default_FLAGS example_env))) = []
   \<and> train_dir (FLAGS (example_world (default_FLAGS example_env))) = []
   \<and> fst (main example_env [''main.py''] (example_world (default_FLAGS example_env))) =
       Raised ''You need to specify either --experiment_name or --train_dir''
   \<and> mode (FLAGS (example_world eval_flags)) = ''official_eval''
   \<and> fst (main example_env [''main.py''] (example_world eval_flags)) \<noteq>
       Raised ''You need to specify either --experiment_name or --train_dir''"
  using main_needs_experiment_name_or_train_dir
    [of "example_world (default_FLAGS example_env)" example_env "[''main.py'']"]
    main_needs_experiment_name_or_train_dir
    [of "example_world eval_flags" example_env "[''main.py'']"]
  by (simp add: default_FLAGS_def)

text \<open>
  C4. In \<^verbatim>\<open>official_eval\<close> mode \<^verbatim>\<open>main\<close> raises when \<^verbatim>\<open>--json_in_path\<close> is empty and raises
  when \<^verbatim>\<open>--ckpt_load_dir\<close> is empty, with the messages of lines 148 and 150 once the checks
  of lines 71 to 76 have passed. With both given it reads the input JSON, opens a session
  and calls \<^verbatim>\<open>initialize_model\<close> on \<^verbatim>\<open>ckpt_load_dir\<close> with \<^verbatim>\<open>expect_exists=True\<close>: when the
  checkpoint is found and restored, the answers are generated from the data read and the
  mapping is written to \<^verbatim>\<open>json_out_path\<close>; when it is not found, or found and not readable
  by the framework, the run raises and writes nothing.
\<close>

theorem main_official_eval:
  assumes "mode (FLAGS w) = ''official_eval''"
  shows "(json_in_path (FLAGS w) = [] \<longrightarrow>
            (\<exists>msg. fst (main e argv w) = Raised msg)
            \<and> (length argv = 1 \<and> version_major e = 3 \<longrightarrow>
                 fst (main e argv w) =
                   Raised ''For official_eval mode, you need to specify --json_in_path''))
         \<and> (ckpt_load_dir (FLAGS w) = [] \<longrightarrow>
            (\<exists>msg. fst (main e argv w) = Raised msg)
            \<and> (length argv = 1 \<and> version_major e = 3 \<and> json_in_path (FLAGS w) \<noteq> [] \<longrightarrow>
                 fst (main e argv w) =
                   Raised ''For official_eval mode, you need to specify --ckpt_load_dir''))
         \<and> (length argv = 1 \<and> version_major e = 3 \<and> json_in_path (FLAGS w) \<noteq> []
              \<and> ckpt_load_dir (FLAGS w) \<noteq> [] \<longrightarrow>
            fst (main e argv w) =
              (if found_checkpoint e (paths w) (ckpt_load_dir (FLAGS w))
               then restore_outcome e (ckpt_load_dir (FLAGS w))
               else Raised (''There is no saved checkpoint at '' @ ckpt_load_dir (FLAGS w)))
            \<and> trace (snd (main e argv w)) =
                trace w @ setup_events e (filled_FLAGS e (FLAGS w))
                @ [Read_json_data (json_in_path (FLAGS w)), Session_enter,
                   Print (''Looking for model at '' @ ckpt_load_dir (FLAGS w) @ ''...''),
                   Checkpoint_lookup (ckpt_load_dir (FLAGS w))]
                @ (if found_checkpoint e (paths w) (ckpt_load_dir (FLAGS w))
                   then restore_events e (ckpt_load_dir (FLAGS w))
                     @ (if restore_outcome e (ckpt_load_dir (FLAGS w)) = Returned
                        then [Answers_generated,
                              Print (''Writing predictions to '' @ json_out_path (FLAGS w)
                                     @ ''...''),
                              Write_answers (json_out_path (FLAGS w))
                                (generate_answers e (get_json_data e (json_in_path (FLAGS w)))),
                              Print (''Wrote predictions to '' @ json_out_path (FLAGS w))]
                        else [])
                   else [])
                @ [Session_exit])"
proof -
  have raises: "\<exists>msg. fst (main e argv w) = Raised msg"
    if "json_in_path (FLAGS w) = [] \<or> ckpt_load_dir (FLAGS w) = []"
  proof (cases "passes_checks e argv (FLAGS w)")
    case True
    then show ?thesis using that assms by (auto simp: main_fst_passes)
  next
    case False
    then show ?thesis by (simp add: main_fst_fails)
  qed
  have p: "passes_checks e argv (FLAGS w)" if "length argv = 1" "version_major e = 3"
    using that assms by (simp add: passes_checks_def)
  show ?thesis
    using raises p assms
    by (auto simp: main_fst_passes main_trace_official_eval Let_def)
qed

theorem main_official_eval_witness:
  "mode (FLAGS (example_world eval_flags)) = ''official_eval''
   \<and> length [''main.py''] = 1 \<and> version_major example_env = 3
   \<and> json_in_path (FLAGS (example_world eval_flags)) \<noteq> []
   \<and> ckpt_load_dir (FLAGS (example_world eval_flags)) \<noteq> []
   \<and> found_checkpoint example_env (paths (example_world eval_flags)) ''run''
   \<and> fst (main example_env [''main.py''] (example_world eval_flags)) = Returned
   \<and> trace (snd (main example_env [''main.py''] (example_world eval_flags))) =
       setup_events example_env (filled_FLAGS example_env eval_flags)
       @ [Read_json_data ''in.json'', Session_enter, Print ''Looking for model at run...'',
          Checkpoint_lookup ''run'', Print ''Reading model parameters from run/qa.ckpt-5'',
          Saver_restore ''run/qa.ckpt-5'', Answers_generated,
          Print ''Writing predictions to predictions.json...'',
          Write_answers ''predictions.json'' [(''q1'', ''ans'')],
          Print ''Wrote predictions to predictions.json'', Session_exit]
   \<and> json_in_path (FLAGS (example_world (eval_flags\<lparr>json_in_path := []\<rparr>))) = []
   \<and> fst (main example_env [''main.py''] (example_world (eval_flags\<lparr>json_in_path := []\<rparr>))) =
       Raised ''For official_eval mode, you need to specify --json_in_path''
   \<and> ckpt_load_dir (FLAGS (example_world (eval_flags\<lparr>ckpt_load_dir := []\<rparr>))) = []
   \<and> fst (main example_env [''main.py''] (example_world (eval_flags\<lparr>ckpt_load_dir := []\<rparr>))) =
       Raised ''For official_eval mode, you need to specify --ckpt_load_dir''"
proof -
  have present: "found_checkpoint example_env {''run/qa.ckpt-5.index''} ''run''"
    by (simp add: found_checkpoint_def example_env_def)
  have p: "checkpoint_path example_env ''run'' = ''run/qa.ckpt-5''"
    by (simp add: checkpoint_path_def example_env_def)
  have a: "generate_answers example_env (get_json_data example_env ''in.json'') =
      [(''q1'', ''ans'')]"
    by (simp add: example_env_def)
  show ?thesis
    using main_official_eval [of "example_world eval_flags" example_env "[''main.py'']"]
      main_official_eval
        [of "example_world (eval_flags\<lparr>json_in_path := []\<rparr>)" example_env "[''main.py'']"]
      main_official_eval
        [of "example_world (eval_flags\<lparr>ckpt_load_dir := []\<rparr>)" example_env "[''main.py'']"]
    by (simp add: present p a restore_events_def)
qed

text \<open>
  C5. For every mode other than \<^verbatim>\<open>train\<close>, \<^verbatim>\<open>show_examples\<close> and \<^verbatim>\<open>official_eval\<close>, \<^verbatim>\<open>main\<close>
  raises; once the checks of lines 71 to 83 have passed, the message is \<^verbatim>\<open>Unexpected value
  of FLAGS.mode:\<close> followed by the mode. The three modes exclude each other: the steps of the
  training branch happen only in \<^verbatim>\<open>train\<close> mode, those of the example branch only in
  \<^verbatim>\<open>show_examples\<close> mode, those of the evaluation branch only in \<^verbatim>\<open>official_eval\<close> mode.
\<close>

theorem main_unexpected_mode:
  "(mode (FLAGS w) \<noteq> ''train'' \<and> mode (FLAGS w) \<noteq> ''show_examples''
      \<and> mode (FLAGS w) \<noteq> ''official_eval'' \<longrightarrow>
      (\<exists>msg. fst (main e argv w) = Raised msg)
      \<and> (length argv = 1 \<and> version_major e = 3
           \<and> (experiment_name (FLAGS w) \<noteq> [] \<or> train_dir (FLAGS w) \<noteq> []) \<longrightarrow>
           fst (main e argv w) = Raised (''Unexpected value of FLAGS.mode: '' @ mode (FLAGS w))))
   \<and> ((\<exists>x \<in> set (main_events e argv w). train_event x) \<longrightarrow> mode (FLAGS w) = ''train'')
   \<and> ((\<exists>x \<in> set (main_events e argv w). show_examples_event x) \<longrightarrow>
        mode (FLAGS w) = ''show_examples'')
   \<and> ((\<exists>x \<in> set (main_events e argv w). official_eval_event x) \<longrightarrow>
        mode (FLAGS w) = ''official_eval'')"
proof (cases "passes_checks e argv (FLAGS w)")
  case False
  have "\<not> train_event x \<and> \<not> show_examples_event x \<and> \<not> official_eval_event x"
    if "x \<in> set (main_events e argv w)" for x
    using main_events_fails [OF False] that by auto
  moreover have "\<not> (length argv = 1 \<and> version_major e = 3
      \<and> (experiment_name (FLAGS w) \<noteq> [] \<or> train_dir (FLAGS w) \<noteq> []))"
    using False by (auto simp: passes_checks_def)
  ultimately show ?thesis
    using False by (auto simp: main_fst_fails)
next
  case True
  consider (train) "mode (FLAGS w) = ''train''"
    | (show_examples) "mode (FLAGS w) = ''show_examples''"
    | (official_eval) "mode (FLAGS w) = ''official_eval''"
    | (other) "mode (FLAGS w) \<noteq> ''train''" "mode (FLAGS w) \<noteq> ''show_examples''"
        "mode (FLAGS w) \<noteq> ''official_eval''"
    by blast
  then show ?thesis
  proof cases
    case train
    have "main_events e argv w =
        setup_events e (filled_FLAGS e (FLAGS w))
        @ (if train_dir (filled_FLAGS e (FLAGS w)) \<in> paths w then []
           else [Makedirs (train_dir (filled_FLAGS e (FLAGS w)))])
        @ [Add_log_file (path_join (train_dir (filled_FLAGS e (FLAGS w))) ''log.txt''),
           Json_dump_flags (path_join (train_dir (filled_FLAGS e (FLAGS w))) ''flags.json'')
             (filled_FLAGS e (FLAGS w))]
        @ (if path_join (train_dir (filled_FLAGS e (FLAGS w))) ''best_checkpoint'' \<in> paths w
           then []
           else [Makedirs (path_join (train_dir (filled_FLAGS e (FLAGS w))) ''best_checkpoint'')])
        @ [Session_enter,
           Print (''Looking for model at '' @ train_dir (filled_FLAGS e (FLAGS w)) @ ''...''),
           Checkpoint_lookup (train_dir (filled_FLAGS e (FLAGS w)))]
        @ (if found_checkpoint e (paths (snd (main e argv w)))
                (train_dir (filled_FLAGS e (FLAGS w)))
           then restore_events e (train_dir (filled_FLAGS e (FLAGS w)))
           else fresh_events e (train_dir (filled_FLAGS e (FLAGS w))))
        @ (if fst (main e argv w) = Returned
           then [Model_train (path_join (data_dir (FLAGS w)) ''train.context'')
                   (path_join (data_dir (FLAGS w)) ''train.question'')
                   (path_join (data_dir (FLAGS w)) ''train.span'')
                   (path_join (data_dir (FLAGS w)) ''dev.question'')
                   (path_join (data_dir (FLAGS w)) ''dev.context'')
                   (path_join (data_dir (FLAGS w)) ''dev.span'')]
           else [])
        @ [Session_exit]"
      by (rule main_events_eq)
        (simp add: main_trace_train [OF True train] main_paths_train [OF True train] Let_def)
    then have "\<forall>x \<in> set (main_events e argv w). \<not> show_examples_event x"
      and "\<forall>x \<in> set (main_events e argv w). \<not> official_eval_event x"
      by (auto split: if_splits dest: neutral_events)
    then show ?thesis
      using train by auto
  next
    case show_examples
    have "main_events e argv w =
        setup_events e (filled_FLAGS e (FLAGS w))
        @ [Session_enter,
           Print (''Looking for model at ''
                  @ path_join (train_dir (filled_FLAGS e (FLAGS w))) ''best_checkpoint''
                  @ ''...''),
           Checkpoint_lookup (path_join (train_dir (filled_FLAGS e (FLAGS w))) ''best_checkpoint'')]
        @ (if found_checkpoint e (paths w)
                (path_join (train_dir (filled_FLAGS e (FLAGS w))) ''best_checkpoint'')
           then restore_events e
                  (path_join (train_dir (filled_FLAGS e (FLAGS w))) ''best_checkpoint'')
             @ (if restore_outcome e
                     (path_join (train_dir (filled_FLAGS e (FLAGS w))) ''best_checkpoint'')
                   = Returned
                then [Check_f1_em (path_join (data_dir (FLAGS w)) ''dev.context'')
                        (path_join (data_dir (FLAGS w)) ''dev.question'')
                        (path_join (data_dir (FLAGS w)) ''dev.span'') ''dev'' 10 True]
                else [])
           else [])
        @ [Session_exit]"
      by (rule main_events_eq)
        (simp add: main_trace_show_examples [OF True show_examples] Let_def)
    then have "\<forall>x \<in> set (main_events e argv w). \<not> train_event x"
      and "\<forall>x \<in> set (main_events e argv w). \<not> official_eval_event x"
      by (auto split: if_splits dest: neutral_events)
    then show ?thesis
      using show_examples by auto
  next
    case official_eval
    have "main_events e argv w =
        setup_events e (filled_FLAGS e (FLAGS w))
        @ (if json_in_path (FLAGS w) = [] \<or> ckpt_load_dir (FLAGS w) = [] then []
           else [Read_json_data (json_in_path (FLAGS w)), Session_enter,
                 Print (''Looking for model at '' @ ckpt_load_dir (FLAGS w) @ ''...''),
                 Checkpoint_lookup (ckpt_load_dir (FLAGS w))]
             @ (if found_checkpoint e (paths w) (ckpt_load_dir (FLAGS w))
                then restore_events e (ckpt_load_dir (FLAGS w))
                  @ (if restore_outcome e (ckpt_load_dir (FLAGS w)) = Returned
                     then [Answers_generated,
                           Print (''Writing predictions to '' @ json_out_path (FLAGS w)
                                  @ ''...''),
                           Write_answers (json_out_path (FLAGS w))
                             (generate_answers e (get_json_data e (json_in_path (FLAGS w)))),
                           Print (''Wrote predictions to '' @ json_out_path (FLAGS w))]
                     else [])
                else [])
             @ [Session_exit])"
      by (rule main_events_eq)
        (simp add: main_trace_official_eval [OF True official_eval] Let_def)
    then have "\<forall>x \<in> set (main_events e argv w). \<not> train_event x"
      and "\<forall>x \<in> set (main_events e argv w). \<not> show_examples_event x"
      by (auto split: if_splits dest: neutral_events)
    then show ?thesis
      using official_eval by auto
  next
    case other
    have "main_events e argv w = setup_events e (filled_FLAGS e (FLAGS w))"
      by (rule main_events_eq) (simp add: main_trace_other [OF True other])
    then have "\<forall>x \<in> set (main_events e argv w). \<not> train_event x"
      and "\<forall>x \<in> set (main_events e argv w). \<not> show_examples_event x"
      and "\<forall>x \<in> set (main_events e argv w). \<not> official_eval_event x"
      by (auto dest: neutral_events)
    then show ?thesis
      using True other by (auto simp: main_fst_passes)
  qed
qed

theorem main_unexpected_mode_witness:
  "mode (FLAGS (example_world (train_flags\<lparr>mode := ''foo''\<rparr>))) \<noteq> ''train''
   \<and> mode (FLAGS (example_world (train_flags\<lparr>mode := ''foo''\<rparr>))) \<noteq> ''show_examples''
   \<and> mode (FLAGS (example_world (train_flags\<lparr>mode := ''foo''\<rparr>))) \<noteq> ''official_eval''
   \<and> length [''main.py''] = 1 \<and> version_major example_env = 3
   \<and> experiment_name (FLAGS (example_world (train_flags\<lparr>mode := ''foo''\<rparr>))) \<noteq> []
   \<and> fst (main example_env [''main.py''] (example_world (train_flags\<lparr>mode := ''foo''\<rparr>))) =
       Raised ''Unexpected value of FLAGS.mode: foo''
   \<and> (\<exists>x \<in> set (main_events example_env [''main.py''] (example_world train_flags)).
         train_event x)
   \<and> mode (FLAGS (example_world train_flags)) = ''train''
   \<and> (\<exists>x \<in> set (main_events example_env [''main.py''] (example_world eval_flags)).
         official_eval_event x)
   \<and> mode (FLAGS (example_world eval_flags)) = ''official_eval''"
proof -
  have "passes_checks example_env [''main.py''] (FLAGS (example_world train_flags))"
    by (simp add: passes_checks_def)
  from main_trace_train [OF this]
  have "Add_log_file (path_join (train_dir (filled_FLAGS example_env train_flags)) ''log.txt'')
      \<in> set (main_events example_env [''main.py''] (example_world train_flags))"
    by (simp add: main_events_def Let_def)
  then have t: "\<exists>x \<in> set (main_events example_env [''main.py''] (example_world train_flags)).
      train_event x"
    by (rule bexI [rotated]) simp
  have "passes_checks example_env [''main.py''] (FLAGS (example_world eval_flags))"
    by (simp add: passes_checks_def)
  from main_trace_official_eval [OF this]
  have "Read_json_data ''in.json''
      \<in> set (main_events example_env [''main.py''] (example_world eval_flags))"
    by (simp add: main_events_def Let_def)
  then have o: "\<exists>x \<in> set (main_events example_env [''main.py''] (example_world eval_flags)).
      official_eval_event x"
    by (rule bexI [rotated]) simp
  show ?thesis
    using main_unexpected_mode
      [of "example_world (train_flags\<lparr>mode := ''foo''\<rparr>)" example_env "[''main.py'']"]
      main_unexpected_mode [of "example_world train_flags" example_env "[''main.py'']"]
      main_unexpected_mode [of "example_world eval_flags" example_env "[''main.py'']"]
      t o
    by simp
qed

text \<open>
  C6. In every run that passes the checks of lines 71 to 83, \<^verbatim>\<open>FLAGS.train_dir\<close> is, from
  line 84 on, the given \<^verbatim>\<open>--train_dir\<close> if one was given, and otherwise the join of the
  experiments directory and the experiment name: for a relative name,
  \<^verbatim>\<open>{MAIN_DIR}/experiments/{experiment_name}\<close>.
\<close>

theorem main_train_dir_default:
  assumes "length argv = 1" and "version_major e = 3"
    and "experiment_name (FLAGS w) \<noteq> [] \<or> train_dir (FLAGS w) \<noteq> []
         \<or> mode (FLAGS w) = ''official_eval''"
  shows "train_dir (FLAGS (snd (main e argv w))) =
           (if train_dir (FLAGS w) = []
            then path_join (EXPERIMENTS_DIR e) (experiment_name (FLAGS w))
            else train_dir (FLAGS w))
         \<and> (experiment_name (FLAGS w) \<noteq> [] \<and> hd (experiment_name (FLAGS w)) \<noteq> CHR ''/'' \<longrightarrow>
              path_join (EXPERIMENTS_DIR e) (experiment_name (FLAGS w)) =
                path_join (MAIN_DIR e) ''experiments'' @ ''/'' @ experiment_name (FLAGS w))"
proof -
  have "passes_checks e argv (FLAGS w)"
    using assms by (rule checks_passed)
  then have "FLAGS (snd (main e argv w)) = filled_FLAGS e (FLAGS w)"
    by (simp add: main_FLAGS)
  then show ?thesis
    by (auto simp: filled_FLAGS_def py_or_def EXPERIMENTS_DIR_join)
      (simp add: EXPERIMENTS_DIR_def)
qed

theorem main_train_dir_default_witness:
  "length [''main.py''] = 1 \<and> version_major example_env = 3
   \<and> experiment_name (FLAGS (example_world train_flags)) \<noteq> []
   \<and> hd (experiment_name (FLAGS (example_world train_flags))) \<noteq> CHR ''/''
   \<and> train_dir (FLAGS (example_world train_flags)) = []
   \<and> train_dir (FLAGS (snd (main example_env [''main.py''] (example_world train_flags)))) =
       ''./experiments/e1''
   \<and> train_dir (FLAGS (snd (main example_env [''main.py'']
         (example_world (train_flags\<lparr>train_dir := ''runs/a''\<rparr>))))) = ''runs/a''"
  using main_train_dir_default [of "[''main.py'']" example_env "example_world train_flags"]
    main_train_dir_default
      [of "[''main.py'']" example_env "example_world (train_flags\<lparr>train_dir := ''runs/a''\<rparr>)"]
  by (simp add: example_dirs path_join_def)

text \<open>
  C7. In every run that passes the checks of lines 71 to 83, \<^verbatim>\<open>FLAGS.glove_path\<close> is, from
  line 90 on, the given \<^verbatim>\<open>--glove_path\<close> if one was given, and otherwise
  \<^verbatim>\<open>{MAIN_DIR}/data/glove.6B.{embedding_size}d.txt\<close> with the configured embedding size in
  decimal; this is the path handed to \<^verbatim>\<open>get_glove\<close>.
\<close>

theorem main_glove_path_default:
  assumes "length argv = 1" and "version_major e = 3"
    and "experiment_name (FLAGS w) \<noteq> [] \<or> train_dir (FLAGS w) \<noteq> []
         \<or> mode (FLAGS w) = ''official_eval''"
  shows "glove_path (FLAGS (snd (main e argv w))) =
           (if glove_path (FLAGS w) = []
            then path_join (MAIN_DIR e) ''data'' @ ''/glove.6B.''
                 @ str_int (embedding_size (FLAGS w)) @ ''d.txt''
            else glove_path (FLAGS w))
         \<and> Get_glove (glove_path (FLAGS (snd (main e argv w)))) (embedding_size (FLAGS w))
             \<in> set (trace (snd (main e argv w)))"
proof -
  have p: "passes_checks e argv (FLAGS w)"
    using assms by (rule checks_passed)
  then have F: "FLAGS (snd (main e argv w)) = filled_FLAGS e (FLAGS w)"
    by (simp add: main_FLAGS)
  have "glove_path (filled_FLAGS e (FLAGS w)) =
      (if glove_path (FLAGS w) = []
       then path_join (MAIN_DIR e) ''data'' @ ''/glove.6B.''
            @ str_int (embedding_size (FLAGS w)) @ ''d.txt''
       else glove_path (FLAGS w))"
    by (simp add: filled_FLAGS_def py_or_def DEFAULT_DATA_DIR_join)
      (simp add: DEFAULT_DATA_DIR_def)
  moreover from main_trace_setup [OF p]
  have "Get_glove (glove_path (filled_FLAGS e (FLAGS w))) (embedding_size (FLAGS w))
      \<in> set (trace (snd (main e argv w)))"
    by (auto simp: setup_events_def)
  ultimately show ?thesis
    by (simp add: F)
qed

theorem main_glove_path_default_witness:
  "length [''main.py''] = 1 \<and> version_major example_env = 3
   \<and> experiment_name (FLAGS (example_world train_flags)) \<noteq> []
   \<and> glove_path (FLAGS (example_world train_flags)) = []
   \<and> glove_path (FLAGS (snd (main example_env [''main.py''] (example_world train_flags)))) =
       ''./data/glove.6B.100d.txt''
   \<and> Get_glove ''./data/glove.6B.100d.txt'' 100
       \<in> set (trace (snd (main example_env [''main.py''] (example_world train_flags))))
   \<and> glove_path (FLAGS (snd (main example_env [''main.py'']
         (example_world (train_flags\<lparr>glove_path := ''vec.txt''\<rparr>))))) = ''vec.txt''"
  using main_glove_path_default [of "[''main.py'']" example_env "example_world train_flags"]
    main_glove_path_default
      [of "[''main.py'']" example_env "example_world (train_flags\<lparr>glove_path := ''vec.txt''\<rparr>)"]
  by (auto simp: str_int_100 path_join_def)

text \<open>
  C8 as stated says that \<^verbatim>\<open>FLAGS\<close> is never changed after parsing. The run of
  \<^verbatim>\<open>--experiment_name e1\<close> ends with a configuration different from the parsed one.
\<close>

theorem script_changes_FLAGS:
  "FLAGS (snd (script example_env ''main.py'' train_flags [] {} Map.empty)) \<noteq> train_flags"
proof -
  have "passes_checks example_env [''main.py''] train_flags"
    by (simp add: passes_checks_def)
  then have "train_dir (FLAGS (snd (script example_env ''main.py'' train_flags [] {} Map.empty)))
      = ''./experiments/e1''"
    by (simp add: script_FLAGS filled_FLAGS_def py_or_def example_dirs path_join_def)
  then show ?thesis
    by (metis list.distinct(1) train_flags_simps(3))
qed

text \<open>
  C8 (as the code has it). The configuration is created once, by parsing. After that the
  script changes only \<^verbatim>\<open>train_dir\<close> and \<^verbatim>\<open>glove_path\<close>, at lines 84 and 90 of \<^verbatim>\<open>main\<close>, and
  only in runs in which \<^verbatim>\<open>tf.app.run\<close> calls \<^verbatim>\<open>main\<close> and the argument list that \<^verbatim>\<open>main\<close>
  receives passes the checks of lines 71 to 83: a value given on the command line is kept,
  an empty one receives its default. Every other field keeps its parsed value for the whole
  run, and the configuration seen by the model constructor and written to \<^verbatim>\<open>flags.json\<close> is
  the one the run ends with.
\<close>

theorem script_FLAGS_only_defaults_filled:
  "let F' = FLAGS (snd (script e argv0 parsed unparsed fs vars))
   in F' = (case tf_parse_flags e (argv0 # unparsed) of
              None \<Rightarrow> parsed
            | Some unused_argv \<Rightarrow>
                if passes_checks e unused_argv parsed then filled_FLAGS e parsed else parsed)
      \<and> F'\<lparr>train_dir := train_dir parsed, glove_path := glove_path parsed\<rparr> = parsed
      \<and> (train_dir parsed \<noteq> [] \<longrightarrow> train_dir F' = train_dir parsed)
      \<and> (glove_path parsed \<noteq> [] \<longrightarrow> glove_path F' = glove_path parsed)
      \<and> (\<forall>x \<in> set (trace (snd (script e argv0 parsed unparsed fs vars))).
            \<forall>G. flags_of_event x = Some G \<longrightarrow> G = F')"
  using script_trace_flags [of _ e argv0 parsed unparsed fs vars]
  by (auto simp: Let_def script_FLAGS filled_FLAGS_def py_or_def split: option.splits)

theorem script_FLAGS_only_defaults_filled_witness:
  "train_dir (train_flags\<lparr>train_dir := ''runs/a'', glove_path := ''vec.txt''\<rparr>) \<noteq> []
   \<and> glove_path (train_flags\<lparr>train_dir := ''runs/a'', glove_path := ''vec.txt''\<rparr>) \<noteq> []
   \<and> FLAGS (snd (script example_env ''main.py''
        (train_flags\<lparr>train_dir := ''runs/a'', glove_path := ''vec.txt''\<rparr>) [] {} Map.empty)) =
      train_flags\<lparr>train_dir := ''runs/a'', glove_path := ''vec.txt''\<rparr>
   \<and> QAModel_init (train_flags\<lparr>train_dir := ''runs/a'', glove_path := ''vec.txt''\<rparr>)
       \<in> set (trace (snd (script example_env ''main.py''
        (train_flags\<lparr>train_dir := ''runs/a'', glove_path := ''vec.txt''\<rparr>) [] {} Map.empty)))
   \<and> flags_of_event
        (QAModel_init (train_flags\<lparr>train_dir := ''runs/a'', glove_path := ''vec.txt''\<rparr>)) =
       Some (train_flags\<lparr>train_dir := ''runs/a'', glove_path := ''vec.txt''\<rparr>)
   \<and> FLAGS (snd (script undefok_env ''main.py'' train_flags [''--undefok=x''] {} Map.empty)) =
      filled_FLAGS undefok_env train_flags"
proof -
  let ?P = "train_flags\<lparr>train_dir := ''runs/a'', glove_path := ''vec.txt''\<rparr>"
  have t: "tf_parse_flags example_env [''main.py''] = Some [''main.py'']"
    by simp
  have p: "passes_checks example_env [''main.py''] ?P"
    by (simp add: passes_checks_def)
  have f: "filled_FLAGS example_env ?P = ?P"
    by (simp add: filled_FLAGS_def py_or_def)
  have "QAModel_init ?P
      \<in> set (trace (snd (script example_env ''main.py'' ?P [] {} Map.empty)))"
    using script_builds_model [OF t p, of "{}" Map.empty] by (simp add: f)
  moreover have "tf_parse_flags undefok_env [''main.py'', ''--undefok=x''] = Some [''main.py'']"
    by simp
  moreover have "passes_checks undefok_env [''main.py''] train_flags"
    by (simp add: passes_checks_def)
  ultimately show ?thesis
    using script_FLAGS_only_defaults_filled
      [of example_env "''main.py''" ?P "[]" "{}" Map.empty]
      script_FLAGS_only_defaults_filled
      [of undefok_env "''main.py''" train_flags "[''--undefok=x'']" "{}" Map.empty]
    by (auto simp: Let_def p f t)
qed




text \<open>
  C10. Whenever the interpreter's major version is not 3, \<^verbatim>\<open>main\<close> raises and changes
  nothing; when the argument check of line 71 passes, the message is \<^verbatim>\<open>ERROR: You must use
  Python 2 but you are running Python\<close> followed by the actual major version. Under a major
  version of 3 that message is never raised.
\<close>

theorem main_python_version_check:
  "(version_major e \<noteq> 3 \<longrightarrow>
      (\<exists>msg. main e argv w = (Raised msg, w))
      \<and> (length argv = 1 \<longrightarrow>
           main e argv w =
             (Raised (''ERROR: You must use Python 2 but you are running Python ''
                      @ str_int (version_major e)), w)))
   \<and> (version_major e = 3 \<longrightarrow>
      (\<forall>s. fst (main e argv w) \<noteq>
             Raised (''ERROR: You must use Python 2 but you are running Python '' @ s)))"
proof (intro conjI impI allI)
  assume v: "version_major e \<noteq> 3"
  show "\<exists>msg. main e argv w = (Raised msg, w)"
    using v by (cases "length argv = 1") (simp_all add: main_bad_argv main_bad_version)
  show "main e argv w =
      (Raised (''ERROR: You must use Python 2 but you are running Python ''
               @ str_int (version_major e)), w)" if "length argv = 1"
    using that v by (rule main_bad_version)
next
  fix s
  assume v: "version_major e = 3"
  show "fst (main e argv w) \<noteq>
      Raised (''ERROR: You must use Python 2 but you are running Python '' @ s)"
  proof (cases "passes_checks e argv (FLAGS w)")
    case True
    then show ?thesis by (simp add: main_fst_passes)
  next
    case False
    then show ?thesis
      using v by (cases rule: fails_cases) (simp_all add: main_bad_argv main_no_name)
  qed
qed

theorem main_python_version_check_witness:
  "version_major (example_env\<lparr>version_major := 2\<rparr>) \<noteq> 3 \<and> length [''main.py''] = 1
   \<and> main (example_env\<lparr>version_major := 2\<rparr>) [''main.py''] (example_world train_flags) =
       (Raised ''ERROR: You must use Python 2 but you are running Python 2'',
        example_world train_flags)
   \<and> version_major example_env = 3
   \<and> fst (main example_env [''main.py''] (example_world train_flags)) \<noteq>
       Raised (''ERROR: You must use Python 2 but you are running Python '' @ ''3'')"
  using main_python_version_check
    [of "example_env\<lparr>version_major := 2\<rparr>" "[''main.py'']" "example_world train_flags"]
    main_python_version_check [of example_env "[''main.py'']" "example_world train_flags"]
  by (simp add: str_int_def str_nat.simps)

end
